theory Spec2Isabelle
  imports Complex_Main
begin

section \<open>Values exchanged with the upstream API\<close>

text \<open>
  Parsed JSON documents, as \<^verbatim>\<open>response.json()\<close> and \<^verbatim>\<open>json.loads\<close> return them.
  Python's \<^verbatim>\<open>None\<close> is \<open>JNull\<close>, a \<^verbatim>\<open>dict\<close> is an association list in insertion
  order with distinct keys, numbers are Python integers.
\<close>

datatype json =
    JNull
  | JBool bool
  | JNum int
  | JStr string
  | JArr "json list"
  | JObj "(string \<times> json) list"

text \<open>Python truthiness (\<^verbatim>\<open>if result\<close>, \<^verbatim>\<open>if data\<close>, \<^verbatim>\<open>if detail\<close>).\<close>

fun truthy :: "json \<Rightarrow> bool" where
  "truthy JNull = False"
| "truthy (JBool b) = b"
| "truthy (JNum n) = (n \<noteq> 0)"
| "truthy (JStr s) = (s \<noteq> [])"
| "truthy (JArr xs) = (xs \<noteq> [])"
| "truthy (JObj kvs) = (kvs \<noteq> [])"

text \<open>\<^verbatim>\<open>isinstance(result, dict)\<close>.\<close>

fun is_dict :: "json \<Rightarrow> bool" where
  "is_dict (JObj kvs) = True"
| "is_dict _ = False"

text \<open>\<^verbatim>\<open>d.get(key, default)\<close> on a value already known to be a dict.\<close>

fun dict_get :: "json \<Rightarrow> string \<Rightarrow> json \<Rightarrow> json" where
  "dict_get (JObj kvs) key dflt = (case map_of kvs key of Some v \<Rightarrow> v | None \<Rightarrow> dflt)"
| "dict_get _ key dflt = dflt"

text \<open>\<^verbatim>\<open>item[key] = v\<close>: an existing key keeps its position, a new key goes last.\<close>

fun dict_set :: "(string \<times> json) list \<Rightarrow> string \<Rightarrow> json \<Rightarrow> (string \<times> json) list" where
  "dict_set [] key v = [(key, v)]"
| "dict_set ((k, x) # kvs) key v =
     (if k = key then (k, v) # kvs else (k, x) # dict_set kvs key v)"

section \<open>Exceptions, requests and the effect trace\<close>

text \<open>
  \<open>Timeout\<close> is \<^verbatim>\<open>requests.exceptions.Timeout\<close>; \<open>RequestException\<close> stands for every
  other subclass of \<^verbatim>\<open>requests.exceptions.RequestException\<close> (connection errors, the
  \<^verbatim>\<open>HTTPError\<close> of \<^verbatim>\<open>raise_for_status\<close>); the remaining constructors are ordinary
  Python exceptions.
\<close>

datatype exn =
    Timeout
  | RequestException
  | ValueError
  | TypeError
  | AttributeError
  | ZeroDivisionError
  | OverflowError

fun is_request_exception :: "exn \<Rightarrow> bool" where
  "is_request_exception Timeout = True"
| "is_request_exception RequestException = True"
| "is_request_exception _ = False"

datatype 'a result = Returns 'a | Raises exn

text \<open>The endpoints of \<^verbatim>\<open>BASE_URL\<close> the crawlers call, with their parameters.\<close>

datatype request =
    Getinfo
  | Listbydate string
  | Tender json json

text \<open>
  What one \<^verbatim>\<open>session.get\<close> attempt leads to inside \<^verbatim>\<open>_request_with_retry\<close>: status 429,
  a body that passes \<^verbatim>\<open>raise_for_status\<close> and parses, or an exception raised by
  \<^verbatim>\<open>get\<close>, \<^verbatim>\<open>raise_for_status\<close> or \<^verbatim>\<open>json\<close>.
\<close>

datatype response = Status429 | Ok json | Fails exn

text \<open>
  The upstream server: its answer to the \<open>n\<close>-th request of the run (counted from 0).
\<close>

type_synonym server = "nat \<Rightarrow> request \<Rightarrow> response"

datatype sink = All_tenders | Tender_details

datatype message = Net_error string | Other_error string | Day_done string int int
  | Detail_failed string

text \<open>
  Effects in the order the program performs them. \<open>Call\<close> marks the entry of
  \<^verbatim>\<open>_request_with_retry\<close> (one logical fetch), \<open>Get\<close> one \<^verbatim>\<open>session.get\<close>;
  \<open>Backoff n\<close> is the \<^verbatim>\<open>time.sleep(wait_time)\<close> after a 429, \<open>Pause n\<close> a
  \<^verbatim>\<open>time.sleep(5)\<close>, \<open>Delay\<close> the \<^verbatim>\<open>time.sleep(delay)\<close> between units of work.
  \<open>Write\<close> puts a line into the file object's buffer, \<open>Flush\<close> and \<open>Close\<close> make the
  buffer durable; \<open>Save_progress\<close> and \<open>Save_details\<close> rewrite a progress file.
\<close>

datatype event =
    Call request
  | Get request
  | Backoff nat
  | Pause nat
  | Delay
  | Write sink json
  | Flush sink
  | Close sink
  | Save_progress "string set" int
  | Save_details "string set"
  | Log message

text \<open>
  The \<^verbatim>\<open>delay\<close> argument, a float: a real number of seconds, an infinity or
  not-a-number. \<^verbatim>\<open>time.sleep\<close> refuses not-a-number, a length beyond the range of a
  64-bit count of nanoseconds, and a negative length.
\<close>

datatype seconds = Seconds real | Infinite | NaN

fun sleep_error :: "seconds \<Rightarrow> exn option" where
  "sleep_error NaN = Some ValueError"
| "sleep_error Infinite = Some OverflowError"
| "sleep_error (Seconds x) =
     (if x * 1000000000 > 9223372036854775807 \<or> x * 1000000000 < - 9223372036854775808
      then Some OverflowError
      else if x < 0 then Some ValueError
      else None)"

record world =
  sent :: nat
  trace :: "event list"

definition emit :: "event \<Rightarrow> 'a world_scheme \<Rightarrow> 'a world_scheme" where
  "emit e w = w\<lparr>trace := trace w @ [e]\<rparr>"

section \<open>Rate-limited fetch client\<close>

text \<open>
  The body of \<^verbatim>\<open>for attempt in range(max_retries)\<close> in \<^verbatim>\<open>_request_with_retry\<close>, by
  recursion on the attempt numbers still to come. Falling out of the loop returns
  \<^verbatim>\<open>None\<close>.
\<close>

fun attempts :: "server \<Rightarrow> request \<Rightarrow> nat \<Rightarrow> nat list \<Rightarrow> 'a world_scheme
    \<Rightarrow> json result \<times> 'a world_scheme" where
  "attempts srv req max_retries [] w = (Returns JNull, w)"
| "attempts srv req max_retries (attempt # rest) w =
     (let w1 = emit (Get req) (w\<lparr>sent := sent w + 1\<rparr>) in
      case srv (sent w) req of
        Status429 \<Rightarrow>
          attempts srv req max_retries rest (emit (Backoff (10 * (attempt + 1))) w1)
      | Ok body \<Rightarrow> (Returns body, w1)
      | Fails e \<Rightarrow>
          if e = Timeout then
            if int attempt < int max_retries - 1
            then attempts srv req max_retries rest (emit (Pause 5) w1)
            else (Raises Timeout, w1)
          else (Raises e, w1))"

definition request_with_retry :: "server \<Rightarrow> request \<Rightarrow> nat \<Rightarrow> 'a world_scheme
    \<Rightarrow> json result \<times> 'a world_scheme" where
  "request_with_retry srv req max_retries w =
     attempts srv req max_retries [0..<max_retries] (emit (Call req) w)"

definition get_info :: "server \<Rightarrow> 'a world_scheme \<Rightarrow> json result \<times> 'a world_scheme" where
  "get_info srv w = request_with_retry srv Getinfo 3 w"

definition list_by_date :: "server \<Rightarrow> string \<Rightarrow> 'a world_scheme
    \<Rightarrow> json result \<times> 'a world_scheme" where
  "list_by_date srv date_str w =
     (case request_with_retry srv (Listbydate date_str) 3 w of
        (Raises e, w') \<Rightarrow> (Raises e, w')
      | (Returns result, w') \<Rightarrow>
          if truthy result \<and> is_dict result
          then (Returns (dict_get result ''records'' (JArr [])), w')
          else (Returns (JArr []), w'))"

definition get_tender_detail :: "server \<Rightarrow> json \<Rightarrow> json \<Rightarrow> 'a world_scheme
    \<Rightarrow> json result \<times> 'a world_scheme" where
  "get_tender_detail srv unit_id job_number w =
     request_with_retry srv (Tender unit_id job_number) 3 w"

section \<open>Dates\<close>

text \<open>
  A \<^verbatim>\<open>datetime\<close>: the proleptic Gregorian day number (\<^verbatim>\<open>toordinal()\<close>), the
  microseconds since midnight, and the UTC offset in microseconds of an aware value
  (\<open>None\<close> for a naive one). \<^verbatim>\<open>+ timedelta(days=1)\<close> moves the day number, keeps the
  rest and raises \<^verbatim>\<open>OverflowError\<close> past 9999-12-31.
\<close>

datatype datetime = Datetime (ordinal: int) (micros: nat) (utcoffset: "int option")

text \<open>
  Subtracting or comparing a naive and an aware value raises \<^verbatim>\<open>TypeError\<close>; the
  callers test \<open>comparable\<close> first. Values with the same offset compare field by
  field, aware values with different offsets by their instants.
\<close>

definition comparable :: "datetime \<Rightarrow> datetime \<Rightarrow> bool" where
  "comparable a b \<longleftrightarrow> (utcoffset a = None) = (utcoffset b = None)"

definition instant :: "datetime \<Rightarrow> int" where
  "instant d = ordinal d * 86400000000 + int (micros d)
                 - (case utcoffset d of None \<Rightarrow> 0 | Some off \<Rightarrow> off)"

definition dt_le :: "datetime \<Rightarrow> datetime \<Rightarrow> bool" where
  "dt_le a b \<longleftrightarrow>
     comparable a b
     \<and> (if utcoffset a = utcoffset b
        then ordinal a < ordinal b \<or> (ordinal a = ordinal b \<and> micros a \<le> micros b)
        else instant a \<le> instant b)"

definition max_ordinal :: int where
  "max_ordinal = 3652059"

definition add_day :: "datetime \<Rightarrow> datetime option" where
  "add_day d = (if ordinal d + 1 > max_ordinal then None
                else Some (Datetime (ordinal d + 1) (micros d) (utcoffset d)))"

text \<open>The calendar arithmetic of the standard \<^verbatim>\<open>datetime\<close> module.\<close>

definition is_leap :: "int \<Rightarrow> bool" where
  "is_leap y \<longleftrightarrow> y mod 4 = 0 \<and> (y mod 100 \<noteq> 0 \<or> y mod 400 = 0)"

definition days_before_year :: "int \<Rightarrow> int" where
  "days_before_year year =
     (let y = year - 1 in y * 365 + y div 4 - y div 100 + y div 400)"

definition days_in_month_table :: "int list" where
  "days_in_month_table = [-1, 31, 28, 31, 30, 31, 30, 31, 31, 30, 31, 30, 31]"

definition days_before_month_table :: "int list" where
  "days_before_month_table = [-1, 0, 31, 59, 90, 120, 151, 181, 212, 243, 273, 304, 334]"

definition days_before_month :: "int \<Rightarrow> int \<Rightarrow> int" where
  "days_before_month year month =
     days_before_month_table ! nat month + (if month > 2 \<and> is_leap year then 1 else 0)"

definition ymd2ord :: "int \<Rightarrow> int \<Rightarrow> int \<Rightarrow> int" where
  "ymd2ord year month day = days_before_year year + days_before_month year month + day"

definition ord2ymd :: "int \<Rightarrow> int \<times> int \<times> int" where
  "ord2ymd n0 =
     (let n = n0 - 1;
          n400 = n div 146097; n = n mod 146097;
          n100 = n div 36524; n = n mod 36524;
          n4 = n div 1461; n = n mod 1461;
          n1 = n div 365; n = n mod 365;
          year = n400 * 400 + 1 + n100 * 100 + n4 * 4 + n1
      in if n1 = 4 \<or> n100 = 4 then (year - 1, 12, 31)
         else
           let leapyear = (n1 = 3 \<and> (n4 \<noteq> 24 \<or> n100 = 3));
               month = (n + 50) div 32;
               preceding = days_before_month_table ! nat month
                           + (if month > 2 \<and> leapyear then 1 else 0)
           in if preceding > n
              then
                let month' = month - 1;
                    preceding' = preceding - (days_in_month_table ! nat month'
                                   + (if month' = 2 \<and> leapyear then 1 else 0))
                in (year, month', n - preceding' + 1)
              else (year, month, n - preceding + 1))"

text \<open>\<^verbatim>\<open>datetime(year, month, day)\<close> for a valid calendar date: naive, at midnight.\<close>

definition datetime_of :: "int \<Rightarrow> int \<Rightarrow> int \<Rightarrow> datetime" where
  "datetime_of year month day = Datetime (ymd2ord year month day) 0 None"

definition digit :: "int \<Rightarrow> char" where
  "digit n = char_of (48 + n mod 10)"

text \<open>\<^verbatim>\<open>strftime("%Y%m%d")\<close>, for the four-digit years \<^verbatim>\<open>datetime\<close> holds from 1000 on.\<close>

definition strftime_Ymd :: "datetime \<Rightarrow> string" where
  "strftime_Ymd d =
     (case ord2ymd (ordinal d) of (year, month, day) \<Rightarrow>
        [digit (year div 1000), digit (year div 100), digit (year div 10), digit year,
         digit (month div 10), digit month, digit (day div 10), digit day])"

section \<open>List crawler\<close>

record crawl = world +
  downloaded_dates :: "string set"
  downloaded_count :: int
  total_tenders :: int

text \<open>\<^verbatim>\<open>len(data)\<close> and \<^verbatim>\<open>for item in data\<close> on a parsed JSON value.\<close>

fun py_len :: "json \<Rightarrow> int result" where
  "py_len (JStr s) = Returns (int (length s))"
| "py_len (JArr xs) = Returns (int (length xs))"
| "py_len (JObj kvs) = Returns (int (length kvs))"
| "py_len _ = Raises TypeError"

fun py_iter :: "json \<Rightarrow> json list result" where
  "py_iter (JStr s) = Returns (map (\<lambda>c. JStr [c]) s)"
| "py_iter (JArr xs) = Returns xs"
| "py_iter (JObj kvs) = Returns (map (\<lambda>kv. JStr (fst kv)) kvs)"
| "py_iter _ = Raises TypeError"

definition download_date_key :: string where
  "download_date_key = ''_download_date''"

text \<open>\<^verbatim>\<open>item[key] = v\<close> raises \<^verbatim>\<open>TypeError\<close> on anything but a dict.\<close>

fun set_item :: "json \<Rightarrow> string \<Rightarrow> json \<Rightarrow> json result" where
  "set_item (JObj kvs) key v = Returns (JObj (dict_set kvs key v))"
| "set_item _ key v = Raises TypeError"

text \<open>
  The \<^verbatim>\<open>for item in data\<close> loop of \<^verbatim>\<open>download_all_data\<close>: stamp the item with
  its date, then write it as one line.
\<close>

fun write_items :: "string \<Rightarrow> json list \<Rightarrow> crawl \<Rightarrow> unit result \<times> crawl" where
  "write_items date_str [] st = (Returns (), st)"
| "write_items date_str (item # rest) st =
     (case set_item item download_date_key (JStr date_str) of
        Raises e \<Rightarrow> (Raises e, st)
      | Returns stamped \<Rightarrow>
          write_items date_str rest (emit (Write All_tenders stamped) st))"

text \<open>
  The \<^verbatim>\<open>try\<close> block of one date after the fetch: count, write the stamped records,
  mark the date, print the progress line.
\<close>

definition store_day :: "string \<Rightarrow> json \<Rightarrow> crawl \<Rightarrow> unit result \<times> crawl" where
  "store_day date_str data st1 =
     (case (if truthy data then py_len data else Returns 0) of
        Raises e \<Rightarrow> (Raises e, st1)
      | Returns count \<Rightarrow>
          (case (if truthy data
                 then (case py_iter data of
                         Raises e \<Rightarrow> (Raises e, st1)
                       | Returns items \<Rightarrow>
                           (case write_items date_str items st1 of
                              (Raises e, st2) \<Rightarrow> (Raises e, st2)
                            | (Returns u, st2) \<Rightarrow>
                                (Returns (),
                                 st2\<lparr>total_tenders := total_tenders st2 + count\<rparr>)))
                 else (Returns (), st1)) of
             (Raises e, st3) \<Rightarrow> (Raises e, st3)
           | (Returns u, st3) \<Rightarrow>
               (Returns (),
                emit (Log (Day_done date_str count (total_tenders st3)))
                  (st3\<lparr>downloaded_dates := insert date_str (downloaded_dates st3),
                       downloaded_count := downloaded_count st3 + 1\<rparr>))))"

text \<open>The whole \<^verbatim>\<open>try\<close> block of one date.\<close>

definition fetch_day :: "server \<Rightarrow> string \<Rightarrow> crawl \<Rightarrow> unit result \<times> crawl" where
  "fetch_day srv date_str st =
     (case list_by_date srv date_str st of
        (Raises e, st1) \<Rightarrow> (Raises e, st1)
      | (Returns data, st1) \<Rightarrow> store_day date_str data st1)"

text \<open>\<^verbatim>\<open>_save_progress\<close> (the \<^verbatim>\<open>last_update\<close> clock reading is not part of the model).\<close>

definition save_progress :: "crawl \<Rightarrow> crawl" where
  "save_progress st = emit (Save_progress (downloaded_dates st) (total_tenders st)) st"

text \<open>The periodic save: the progress file is written, then the data file is flushed.\<close>

datatype path = Skipped | Net_failed | Processed

definition periodic_save :: "int \<Rightarrow> crawl \<Rightarrow> path result \<times> crawl" where
  "periodic_save save_interval st =
     (if save_interval = 0 then (Raises ZeroDivisionError, st)
      else if downloaded_count st mod save_interval = 0
      then (Returns Processed, emit (Flush All_tenders) (save_progress st))
      else (Returns Processed, st))"

text \<open>
  One pass through the \<^verbatim>\<open>while\<close> body, up to the point where the date advances.
  \<^verbatim>\<open>days_processed\<close>, \<^verbatim>\<open>total_days\<close> and \<^verbatim>\<open>progress_pct\<close> only feed the progress
  line and are left out; \<^verbatim>\<open>total_days\<close> is at least 1 whenever the body runs.
\<close>

definition iteration :: "server \<Rightarrow> int \<Rightarrow> string \<Rightarrow> crawl \<Rightarrow> path result \<times> crawl" where
  "iteration srv save_interval date_str st =
     (if date_str \<in> downloaded_dates st then (Returns Skipped, st)
      else
        (case fetch_day srv date_str st of
           (Raises e, st1) \<Rightarrow>
             if is_request_exception e
             then (Returns Net_failed, emit (Pause 5) (emit (Log (Net_error date_str)) st1))
             else periodic_save save_interval (emit (Log (Other_error date_str)) st1)
         | (Returns u, st1) \<Rightarrow> periodic_save save_interval st1))"

text \<open>
  The \<^verbatim>\<open>while current_date <= end_date\<close> loop. The comparison raises
  \<^verbatim>\<open>TypeError\<close> on a naive and an aware value. After a processed date the date
  advances and \<^verbatim>\<open>time.sleep(delay)\<close> follows, outside the \<^verbatim>\<open>try\<close>: what it raises
  ends the run. A skipped date and a network failure advance without it.
\<close>

function crawl_loop :: "server \<Rightarrow> seconds \<Rightarrow> int \<Rightarrow> datetime \<Rightarrow> datetime \<Rightarrow> crawl
    \<Rightarrow> unit result \<times> crawl" where
  "crawl_loop srv delay save_interval end_date current_date st =
     (if \<not> comparable current_date end_date then (Raises TypeError, st)
      else if dt_le current_date end_date then
        (case iteration srv save_interval (strftime_Ymd current_date) st of
           (Raises e, st1) \<Rightarrow> (Raises e, st1)
         | (Returns path, st1) \<Rightarrow>
             (case add_day current_date of
                None \<Rightarrow> (Raises OverflowError, st1)
              | Some next_date \<Rightarrow>
                  if path = Processed then
                    (case sleep_error delay of
                       Some e \<Rightarrow> (Raises e, st1)
                     | None \<Rightarrow>
                         crawl_loop srv delay save_interval end_date next_date
                           (emit Delay st1))
                  else crawl_loop srv delay save_interval end_date next_date st1))
      else (Returns (), st))"
  by pat_completeness auto
termination
  by (relation "measure (\<lambda>(srv, dl, si, e, c, st). nat (max_ordinal - ordinal c + 1))")
     (auto simp: add_day_def split: if_splits)

text \<open>
  \<^verbatim>\<open>download_all_data\<close> from the progress file on: load the completed dates, compute
  \<^verbatim>\<open>total_days\<close> from \<^verbatim>\<open>end_date - start_date\<close> (which raises \<^verbatim>\<open>TypeError\<close> on a
  naive and an aware value, before the data file is opened), walk the range with the
  data file open in append mode, close it, write the final progress. The counters
  start at zero in every run. An exception inside the \<^verbatim>\<open>with\<close> block closes the data
  file and ends the run without the final progress write.
\<close>

definition crawl_range :: "server \<Rightarrow> seconds \<Rightarrow> int \<Rightarrow> (string set \<times> int) option
    \<Rightarrow> datetime \<Rightarrow> datetime \<Rightarrow> world \<Rightarrow> int result \<times> crawl" where
  "crawl_range srv delay save_interval progress_file start_date end_date w =
     (let st = \<lparr>sent = sent w, trace = trace w,
                downloaded_dates = (case progress_file of None \<Rightarrow> {} | Some p \<Rightarrow> fst p),
                downloaded_count = 0, total_tenders = 0\<rparr>
      in if \<not> comparable start_date end_date then (Raises TypeError, st)
         else
           case crawl_loop srv delay save_interval end_date start_date st of
             (Raises e, st1) \<Rightarrow> (Raises e, emit (Close All_tenders) st1)
           | (Returns u, st1) \<Rightarrow>
               (Returns (total_tenders st1), save_progress (emit (Close All_tenders) st1)))"

text \<open>
  \<^verbatim>\<open>get_statistics\<close>, as \<^verbatim>\<open>--mode info\<close> prints it from the progress file: the number
  of downloaded days and the total number of tenders (file size and \<^verbatim>\<open>last_update\<close>
  left out).
\<close>

definition get_statistics :: "(string set \<times> int) option \<Rightarrow> int \<times> int" where
  "get_statistics progress_file =
     (case progress_file of
        None \<Rightarrow> (0, 0)
      | Some p \<Rightarrow> (int (card (fst p)), snd p))"

section \<open>Metadata dates\<close>

text \<open>
  \<^verbatim>\<open>s.replace(old, '')\<close> for a non-empty \<open>old\<close>: occurrences are removed from left to
  right without overlap. Strings are lists of characters; \<^verbatim>\<open>date_str[:8]\<close> is \<open>take 8\<close>.
\<close>

function str_remove :: "string \<Rightarrow> string \<Rightarrow> string" where
  "str_remove old [] = []"
| "str_remove old (c # cs) =
     (if old \<noteq> [] \<and> take (length old) (c # cs) = old
      then str_remove old (drop (length old) (c # cs))
      else c # str_remove old cs)"
  by pat_completeness auto
termination
  by (relation "measure (\<lambda>(old, s). length s)") auto

text \<open>
  The nested \<^verbatim>\<open>parse_date\<close> of \<^verbatim>\<open>download_all_data\<close>. The two library parsers are
  parameters: \<open>fromisoformat\<close> is \<^verbatim>\<open>datetime.fromisoformat\<close> and \<open>strptime_Ymd\<close> is
  \<^verbatim>\<open>datetime.strptime(_, "%Y%m%d")\<close>, with \<open>None\<close> for a raised exception (both
  \<^verbatim>\<open>except\<close> clauses are bare). \<open>fromisoformat\<close> gives an aware value for a string
  that still carries an offset. A value that is not a string fails both stages.
\<close>

definition parse_date :: "(string \<Rightarrow> datetime option) \<Rightarrow> (string \<Rightarrow> datetime option)
    \<Rightarrow> json \<Rightarrow> datetime option" where
  "parse_date fromisoformat strptime_Ymd v =
     (case v of
        JStr date_str \<Rightarrow>
          if date_str = [] then None
          else (case fromisoformat (str_remove ''+08:00'' date_str) of
                  Some d \<Rightarrow> Some d
                | None \<Rightarrow> strptime_Ymd (take 8 date_str))
      | _ \<Rightarrow> None)"

text \<open>The keys of the metadata document, as UTF-8.\<close>

definition oldest_key :: string where
  "oldest_key = [CHR 0xE6, CHR 0x9C, CHR 0x80, CHR 0xE8, CHR 0x88, CHR 0x8A, CHR 0xE8,
     CHR 0xB3, CHR 0x87, CHR 0xE6, CHR 0x96, CHR 0x99, CHR 0xE6, CHR 0x99, CHR 0x82,
     CHR 0xE9, CHR 0x96, CHR 0x93]"

definition newest_key :: string where
  "newest_key = [CHR 0xE6, CHR 0x9C, CHR 0x80, CHR 0xE6, CHR 0x96, CHR 0xB0, CHR 0xE8,
     CHR 0xB3, CHR 0x87, CHR 0xE6, CHR 0x96, CHR 0x99, CHR 0xE6, CHR 0x99, CHR 0x82,
     CHR 0xE9, CHR 0x96, CHR 0x93]"

definition count_key :: string where
  "count_key = [CHR 0xE5, CHR 0x85, CHR 0xAC, CHR 0xE5, CHR 0x91, CHR 0x8A, CHR 0xE6,
     CHR 0x95, CHR 0xB8]"

text \<open>\<^verbatim>\<open>f"{total_count:,}"\<close> accepts integers only.\<close>

fun format_thousands :: "json \<Rightarrow> unit result" where
  "format_thousands (JNum n) = Returns ()"
| "format_thousands (JBool b) = Returns ()"
| "format_thousands (JStr s) = Raises ValueError"
| "format_thousands _ = Raises TypeError"

text \<open>
  The date range of \<^verbatim>\<open>download_all_data\<close>, from the metadata document to
  \<^verbatim>\<open>start_date\<close> and \<^verbatim>\<open>end_date\<close>; \<open>now\<close> is \<^verbatim>\<open>datetime.now()\<close>. The
  subtraction \<^verbatim>\<open>end_date - start_date\<close> that follows is part of \<open>crawl_range\<close>.
\<close>

definition date_range :: "(string \<Rightarrow> datetime option) \<Rightarrow> (string \<Rightarrow> datetime option)
    \<Rightarrow> datetime \<Rightarrow> json \<Rightarrow> (datetime \<times> datetime) result" where
  "date_range fromisoformat strptime_Ymd now info =
     (if \<not> is_dict info then Raises AttributeError
      else
        let oldest_date_str = dict_get info oldest_key (JStr []);
            newest_date_str = dict_get info newest_key (JStr []);
            total_count = dict_get info count_key (JNum 0);
            oldest_date = parse_date fromisoformat strptime_Ymd oldest_date_str;
            newest_date = parse_date fromisoformat strptime_Ymd newest_date_str
        in case format_thousands total_count of
             Raises e \<Rightarrow> Raises e
           | Returns u \<Rightarrow>
               (case (oldest_date, newest_date) of
                  (Some oldest, Some newest) \<Rightarrow> Returns (oldest, newest)
                | _ \<Rightarrow> Returns (datetime_of 1999 1 21, now)))"

definition download_all_data :: "server \<Rightarrow> (string \<Rightarrow> datetime option)
    \<Rightarrow> (string \<Rightarrow> datetime option) \<Rightarrow> datetime \<Rightarrow> seconds \<Rightarrow> int
    \<Rightarrow> (string set \<times> int) option \<Rightarrow> world \<Rightarrow> int result \<times> world" where
  "download_all_data srv fromisoformat strptime_Ymd now delay save_interval progress_file w =
     (case get_info srv w of
        (Raises e, w1) \<Rightarrow> (Raises e, w1)
      | (Returns info, w1) \<Rightarrow>
          (case date_range fromisoformat strptime_Ymd now info of
             Raises e \<Rightarrow> (Raises e, w1)
           | Returns (start_date, end_date) \<Rightarrow>
               (case crawl_range srv delay save_interval progress_file start_date end_date w1 of
                  (r, st) \<Rightarrow> (r, world.truncate st))))"

text \<open>
  A fragment of the two library parsers on which every CPython release agrees:
  \<^verbatim>\<open>YYYY-MM-DD\<close>, optionally followed by one separator and \<^verbatim>\<open>HH:MM:SS\<close>, and the
  eight digits \<^verbatim>\<open>YYYYMMDD\<close>. It instantiates the parameters of \<open>parse_date\<close> on
  concrete inputs.
\<close>

definition digit_value :: "char \<Rightarrow> int option" where
  "digit_value c = (let n = of_char c :: nat in
                     if 48 \<le> n \<and> n \<le> 57 then Some (int n - 48) else None)"

fun number :: "int \<Rightarrow> string \<Rightarrow> int option" where
  "number acc [] = Some acc"
| "number acc (c # cs) =
     (case digit_value c of None \<Rightarrow> None | Some v \<Rightarrow> number (10 * acc + v) cs)"

definition days_in_month :: "int \<Rightarrow> int \<Rightarrow> int" where
  "days_in_month year month =
     (if month = 2 \<and> is_leap year then 29 else days_in_month_table ! nat month)"

definition make_datetime :: "int option \<Rightarrow> int option \<Rightarrow> int option \<Rightarrow> int option
    \<Rightarrow> int option \<Rightarrow> int option \<Rightarrow> datetime option" where
  "make_datetime year month day hour minute second =
     (case (year, month, day, hour, minute, second) of
        (Some y, Some m, Some d, Some h, Some mi, Some s) \<Rightarrow>
          if 1 \<le> y \<and> y \<le> 9999 \<and> 1 \<le> m \<and> m \<le> 12 \<and> 1 \<le> d \<and> d \<le> days_in_month y m
             \<and> h \<le> 23 \<and> mi \<le> 59 \<and> s \<le> 59
          then Some (Datetime (ymd2ord y m d) (nat ((h * 3600 + mi * 60 + s) * 1000000)) None)
          else None
      | _ \<Rightarrow> None)"

definition fromisoformat_basic :: "string \<Rightarrow> datetime option" where
  "fromisoformat_basic s =
     (let field = (\<lambda>i n. if length (take n (drop i s)) = n
                          then number 0 (take n (drop i s)) else None)
      in if length s = 10 \<and> s ! 4 = CHR ''-'' \<and> s ! 7 = CHR ''-''
         then make_datetime (field 0 4) (field 5 2) (field 8 2) (Some 0) (Some 0) (Some 0)
         else if length s = 19 \<and> s ! 4 = CHR ''-'' \<and> s ! 7 = CHR ''-''
                 \<and> s ! 13 = CHR '':'' \<and> s ! 16 = CHR '':''
         then make_datetime (field 0 4) (field 5 2) (field 8 2)
                (field 11 2) (field 14 2) (field 17 2)
         else None)"

definition strptime_Ymd_basic :: "string \<Rightarrow> datetime option" where
  "strptime_Ymd_basic s =
     (if length s = 8
      then make_datetime (number 0 (take 4 s)) (number 0 (take 2 (drop 4 s)))
             (number 0 (drop 6 s)) (Some 0) (Some 0) (Some 0)
      else None)"

section \<open>Detail crawler\<close>

record details = world +
  downloaded_ids :: "string set"
  count :: int

text \<open>
  A field inside the f-string \<^verbatim>\<open>f"{unit_id}_{job_number}"\<close>: a string stands for
  itself, any other value is rendered by \<open>fmt\<close> (Python's \<^verbatim>\<open>format\<close>).
\<close>

definition fmt_field :: "(json \<Rightarrow> string) \<Rightarrow> json \<Rightarrow> string" where
  "fmt_field fmt v = (case v of JStr s \<Rightarrow> s | _ \<Rightarrow> fmt v)"

definition tender_id_of :: "(json \<Rightarrow> string) \<Rightarrow> json \<Rightarrow> string" where
  "tender_id_of fmt tender =
     fmt_field fmt (dict_get tender ''unit_id'' (JStr []))
       @ ''_'' @ fmt_field fmt (dict_get tender ''job_number'' (JStr []))"

text \<open>
  Reading \<^verbatim>\<open>all_tenders.jsonl\<close>: a line is \<open>None\<close> when \<^verbatim>\<open>json.loads\<close> raises; a parsed
  value without \<^verbatim>\<open>get\<close> raises too, and the bare \<^verbatim>\<open>except\<close> skips the line.
\<close>

fun read_tenders :: "(json \<Rightarrow> string) \<Rightarrow> string set \<Rightarrow> json option list \<Rightarrow> json list" where
  "read_tenders fmt ids [] = []"
| "read_tenders fmt ids (line # rest) =
     (case line of
        None \<Rightarrow> read_tenders fmt ids rest
      | Some tender \<Rightarrow>
          if \<not> is_dict tender then read_tenders fmt ids rest
          else if tender_id_of fmt tender \<notin> ids
                  \<and> truthy (dict_get tender ''unit_id'' JNull)
                  \<and> truthy (dict_get tender ''job_number'' JNull)
          then tender # read_tenders fmt ids rest
          else read_tenders fmt ids rest)"

text \<open>
  The \<^verbatim>\<open>try\<close> block in the body of \<^verbatim>\<open>for tender in tenders\<close>. Everything after the
  fetch sits in the \<^verbatim>\<open>try\<close>, so the \<^verbatim>\<open>ZeroDivisionError\<close> of a zero \<^verbatim>\<open>batch_size\<close>
  is caught and logged.
\<close>

definition fetch_detail :: "server \<Rightarrow> (json \<Rightarrow> string) \<Rightarrow> int \<Rightarrow> json \<Rightarrow> details \<Rightarrow> details" where
  "fetch_detail srv fmt batch_size tender st =
     (let unit_id = dict_get tender ''unit_id'' (JStr []);
          job_number = dict_get tender ''job_number'' (JStr []);
          tender_id = tender_id_of fmt tender
      in case get_tender_detail srv unit_id job_number st of
           (Raises e, st1) \<Rightarrow> emit (Log (Detail_failed tender_id)) st1
         | (Returns detail, st1) \<Rightarrow>
             if truthy detail then
               let st2 = (emit (Write Tender_details detail) st1)
                           \<lparr>downloaded_ids := insert tender_id (downloaded_ids st1),
                            count := count st1 + 1\<rparr>
               in if batch_size = 0 then emit (Log (Detail_failed tender_id)) st2
                  else if count st2 mod batch_size = 0
                  then emit (Flush Tender_details)
                         (emit (Save_details (downloaded_ids st2)) st2)
                  else st2
             else st1)"

text \<open>
  The loop over the candidates: the \<^verbatim>\<open>try\<close> block, then \<^verbatim>\<open>time.sleep(delay)\<close>
  outside it; what the sleep raises ends the run. The loop never looks at
  \<^verbatim>\<open>downloaded_ids\<close>.
\<close>

fun fetch_details :: "server \<Rightarrow> (json \<Rightarrow> string) \<Rightarrow> seconds \<Rightarrow> int \<Rightarrow> json list
    \<Rightarrow> details \<Rightarrow> unit result \<times> details" where
  "fetch_details srv fmt delay batch_size [] st = (Returns (), st)"
| "fetch_details srv fmt delay batch_size (tender # rest) st =
     (let st1 = fetch_detail srv fmt batch_size tender st
      in case sleep_error delay of
           Some e \<Rightarrow> (Raises e, st1)
         | None \<Rightarrow> fetch_details srv fmt delay batch_size rest (emit Delay st1))"

text \<open>
  \<^verbatim>\<open>download_tender_details\<close>; \<open>all_data_file\<close> is \<open>None\<close> when the list file does
  not exist, \<open>progress_file\<close> when there is no detail checkpoint yet. An exception
  inside the \<^verbatim>\<open>with\<close> block closes the details file and ends the run without the final
  progress write.
\<close>

definition download_tender_details :: "server \<Rightarrow> (json \<Rightarrow> string) \<Rightarrow> seconds \<Rightarrow> int
    \<Rightarrow> json option list option \<Rightarrow> string set option \<Rightarrow> world \<Rightarrow> unit result \<times> details" where
  "download_tender_details srv fmt delay batch_size all_data_file progress_file w =
     (let ids = (case progress_file of None \<Rightarrow> {} | Some p \<Rightarrow> p);
          st = \<lparr>sent = sent w, trace = trace w, downloaded_ids = ids, count = 0\<rparr>
      in case all_data_file of
           None \<Rightarrow> (Returns (), st)
         | Some lines \<Rightarrow>
             (case fetch_details srv fmt delay batch_size (read_tenders fmt ids lines) st of
                (Raises e, st1) \<Rightarrow> (Raises e, emit (Close Tender_details) st1)
              | (Returns u, st1) \<Rightarrow>
                  (Returns (),
                   emit (Save_details (downloaded_ids st1))
                     (emit (Close Tender_details) st1))))"

section \<open>Reading the trace\<close>

fun calls :: "event list \<Rightarrow> request list" where
  "calls [] = []"
| "calls (Call r # es) = r # calls es"
| "calls (e # es) = calls es"

fun gets :: "event list \<Rightarrow> request list" where
  "gets [] = []"
| "gets (Get r # es) = r # gets es"
| "gets (e # es) = gets es"

fun backoffs :: "event list \<Rightarrow> nat list" where
  "backoffs [] = []"
| "backoffs (Backoff n # es) = n # backoffs es"
| "backoffs (e # es) = backoffs es"

fun writes :: "sink \<Rightarrow> event list \<Rightarrow> json list" where
  "writes f [] = []"
| "writes f (Write g line # es) = (if g = f then line # writes f es else writes f es)"
| "writes f (e # es) = writes f es"

fun saved_totals :: "event list \<Rightarrow> int list" where
  "saved_totals [] = []"
| "saved_totals (Save_progress dates n # es) = n # saved_totals es"
| "saved_totals (e # es) = saved_totals es"

text \<open>
  The files as the trace leaves them: what sits in a file object's buffer, what has
  reached the file, and the last progress snapshot written.
\<close>

record disk =
  buffered :: "sink \<Rightarrow> json list"
  durable :: "sink \<Rightarrow> json list"
  progress :: "(string set \<times> int) option"
  details_progress :: "string set option"

fun apply_event :: "disk \<Rightarrow> event \<Rightarrow> disk" where
  "apply_event d (Write f line) = d\<lparr>buffered := (buffered d)(f := buffered d f @ [line])\<rparr>"
| "apply_event d (Flush f) =
     d\<lparr>durable := (durable d)(f := durable d f @ buffered d f),
       buffered := (buffered d)(f := [])\<rparr>"
| "apply_event d (Close f) =
     d\<lparr>durable := (durable d)(f := durable d f @ buffered d f),
       buffered := (buffered d)(f := [])\<rparr>"
| "apply_event d (Save_progress dates n) = d\<lparr>progress := Some (dates, n)\<rparr>"
| "apply_event d (Save_details ids) = d\<lparr>details_progress := Some ids\<rparr>"
| "apply_event d e = d"

definition replay :: "disk \<Rightarrow> event list \<Rightarrow> disk" where
  "replay d es = foldl apply_event d es"

definition empty_disk :: disk where
  "empty_disk = \<lparr>buffered = (\<lambda>f. []), durable = (\<lambda>f. []), progress = None,
                 details_progress = None\<rparr>"

definition fresh :: world where
  "fresh = \<lparr>sent = 0, trace = []\<rparr>"

section \<open>Example inputs\<close>

text \<open>The default \<^verbatim>\<open>delay\<close> of both crawlers.\<close>

definition half_second :: seconds where
  "half_second = Seconds (1 / 2)"

text \<open>A server that answers every request with HTTP 429.\<close>

definition always_busy :: server where
  "always_busy n req = Status429"

text \<open>A server on which every request times out.\<close>

definition always_timeout :: server where
  "always_timeout n req = Fails Timeout"

text \<open>A server with no records for any date.\<close>

definition empty_days :: server where
  "empty_days n req = Ok (JObj [(''records'', JArr [])])"

text \<open>A server with one record for every date.\<close>

definition one_record :: server where
  "one_record n req = Ok (JObj [(''records'', JArr [JObj [(''job_number'', JStr ''J1'')]])])"

text \<open>A server that answers 429 twice and then serves one record.\<close>

definition busy_twice :: server where
  "busy_twice n req =
     (if n < 2 then Status429
      else Ok (JObj [(''records'', JArr [JObj [(''job_number'', JStr ''J1'')]])]))"

text \<open>The in-memory state at the start of a run with no progress file.\<close>

definition blank :: crawl where
  "blank = \<lparr>sent = 0, trace = [], downloaded_dates = {}, downloaded_count = 0,
             total_tenders = 0\<rparr>"

text \<open>A server that serves a detail document for every pair.\<close>

definition one_detail :: server where
  "one_detail n req = Ok (JObj [(''detail'', JStr ''D'')])"

text \<open>Two list records of the same tender, and one of another tender.\<close>

definition tender_a :: json where
  "tender_a = JObj [(''unit_id'', JStr ''U1''), (''job_number'', JStr ''J1'')]"

definition tender_b :: json where
  "tender_b = JObj [(''unit_id'', JStr ''U2''), (''job_number'', JStr ''J2'')]"

text \<open>The metadata document of the scenario, and one whose dates cannot be parsed.\<close>

definition info_scenario :: json where
  "info_scenario =
     JObj [(oldest_key, JStr ''1999-01-21T00:00:00+08:00''),
           (newest_key, JStr ''2026-01-06T00:00:00+08:00''),
           (count_key, JNum 100)]"

definition info_unparsable :: json where
  "info_unparsable =
     JObj [(oldest_key, JStr ''unknown''), (newest_key, JStr ''2026-01-06T00:00:00+08:00''),
           (count_key, JNum 100)]"

text \<open>
  A metadata document whose oldest time is noon of 2026-01-06, and a server that serves
  it and has no records for any date.
\<close>

definition info_noon :: json where
  "info_noon =
     JObj [(oldest_key, JStr ''2026-01-06T12:00:00+08:00''),
           (newest_key, JStr ''2026-01-07T00:00:00+08:00''),
           (count_key, JNum 0)]"

definition noon_server :: server where
  "noon_server n req =
     (case req of Getinfo \<Rightarrow> Ok info_noon | _ \<Rightarrow> Ok (JObj [(''records'', JArr [])]))"

section \<open>Basic facts about the trace\<close>

declare crawl_loop.simps [simp del]

lemma emit_simps [simp]:
  "trace (emit e w) = trace w @ [e]" "sent (emit e w) = sent w"
  by (simp_all add: emit_def)

lemma calls_append [simp]: "calls (xs @ ys) = calls xs @ calls ys"
  by (induction xs rule: calls.induct) simp_all

lemma gets_append [simp]: "gets (xs @ ys) = gets xs @ gets ys"
  by (induction xs rule: gets.induct) simp_all

lemma backoffs_append [simp]: "backoffs (xs @ ys) = backoffs xs @ backoffs ys"
  by (induction xs rule: backoffs.induct) simp_all

lemma writes_append [simp]: "writes f (xs @ ys) = writes f xs @ writes f ys"
  by (induction f xs rule: writes.induct) simp_all

lemma saved_totals_append [simp]: "saved_totals (xs @ ys) = saved_totals xs @ saved_totals ys"
  by (induction xs rule: saved_totals.induct) simp_all

lemma strictly_increasing_waits:
  "sorted_wrt (<) (map (\<lambda>a. 10 * (a + 1)) (filter P [i..<k::nat]) :: nat list)"
proof -
  have "sorted_wrt (<) (filter P [i..<k])"
    by (rule sorted_wrt_filter) simp
  then show ?thesis
    by (simp add: sorted_wrt_map)
qed

lemma upt_3: "[0..<3] = [0, 1, 2]"
  by (simp add: upt_rec)

lemma busy_twice_fetch:
  assumes "srv (sent w) req = Status429" "srv (sent w + 1) req = Status429"
    "srv (sent w + 2) req = Ok body"
  shows "request_with_retry srv req 3 w =
     (Returns body, w\<lparr>sent := sent w + 3,
        trace := trace w @ [Call req, Get req, Backoff 10, Get req, Backoff 20, Get req]\<rparr>)"
  using assms by (simp add: request_with_retry_def upt_3 Let_def emit_def)

section \<open>Facts about the fetch client\<close>

lemma strftime_20260106: "strftime_Ymd (datetime_of 2026 1 6) = ''20260106''"
  by code_simp

lemma emit_crawl [simp]:
  "downloaded_dates (emit e st) = downloaded_dates st"
  "downloaded_count (emit e st) = downloaded_count st"
  "total_tenders (emit e st) = total_tenders st"
  by (simp_all add: emit_def)

lemma emit_details [simp]:
  "downloaded_ids (emit e st) = downloaded_ids st"
  "count (emit e st) = count st"
  by (simp_all add: emit_def)

lemma attempts_dates [simp]:
  "downloaded_dates (snd (attempts srv req m as st)) = downloaded_dates st"
  by (induction as arbitrary: st) (simp_all add: Let_def split: response.splits)

lemma attempts_count [simp]:
  "downloaded_count (snd (attempts srv req m as st)) = downloaded_count st"
  by (induction as arbitrary: st) (simp_all add: Let_def split: response.splits)

lemma attempts_total [simp]:
  "total_tenders (snd (attempts srv req m as st)) = total_tenders st"
  by (induction as arbitrary: st) (simp_all add: Let_def split: response.splits)

lemma attempts_ids [simp]:
  "downloaded_ids (snd (attempts srv req m as st)) = downloaded_ids st"
  by (induction as arbitrary: st) (simp_all add: Let_def split: response.splits)

lemma attempts_details_count [simp]:
  "count (snd (attempts srv req m as st)) = count st"
  by (induction as arbitrary: st) (simp_all add: Let_def split: response.splits)

lemma attempts_calls [simp]:
  "calls (trace (snd (attempts srv req m as w))) = calls (trace w)"
  by (induction as arbitrary: w) (simp_all add: Let_def split: response.splits)

lemma attempts_writes [simp]:
  "writes f (trace (snd (attempts srv req m as w))) = writes f (trace w)"
  by (induction as arbitrary: w) (simp_all add: Let_def split: response.splits)

lemma attempts_saved_totals [simp]:
  "saved_totals (trace (snd (attempts srv req m as w))) = saved_totals (trace w)"
  by (induction as arbitrary: w) (simp_all add: Let_def split: response.splits)

lemma all_busy_fetch:
  assumes "\<forall>a<3. srv (sent w + a) req = Status429"
  shows "request_with_retry srv req 3 w =
     (Returns JNull, w\<lparr>sent := sent w + 3,
        trace := trace w @ [Call req, Get req, Backoff 10, Get req, Backoff 20, Get req,
                   Backoff 30]\<rparr>)"
proof -
  from assms have "srv (sent w) req = Status429" "srv (Suc (sent w)) req = Status429"
      "srv (Suc (Suc (sent w))) req = Status429"
    using assms[rule_format, of 0] assms[rule_format, of 1] assms[rule_format, of 2] by simp_all
  then show ?thesis
    by (simp add: request_with_retry_def upt_3 Let_def emit_def)
qed

lemma all_timeout_fetch:
  assumes "\<forall>a<3. srv (sent w + a) req = Fails Timeout"
  shows "request_with_retry srv req 3 w =
     (Raises Timeout, w\<lparr>sent := sent w + 3,
        trace := trace w @ [Call req, Get req, Pause 5, Get req, Pause 5, Get req]\<rparr>)"
proof -
  from assms have "srv (sent w) req = Fails Timeout" "srv (Suc (sent w)) req = Fails Timeout"
      "srv (Suc (Suc (sent w))) req = Fails Timeout"
    using assms[rule_format, of 0] assms[rule_format, of 1] assms[rule_format, of 2] by simp_all
  then show ?thesis
    by (simp add: request_with_retry_def upt_3 Let_def emit_def)
qed

lemma first_ok_fetch:
  assumes "srv (sent w) req = Ok body"
  shows "request_with_retry srv req 3 w =
     (Returns body, w\<lparr>sent := sent w + 1, trace := trace w @ [Call req, Get req]\<rparr>)"
  using assms by (simp add: request_with_retry_def upt_3 Let_def emit_def)

section \<open>Response shapes at \<^verbatim>\<open>list_by_date\<close>\<close>

text \<open>
  C10. \<^verbatim>\<open>list_by_date\<close> returns whenever the retry helper returns, and it returns the
  empty list when the helper returned \<^verbatim>\<open>None\<close> or a body that is not a dict; in
  particular when all three attempts were answered 429. In the crawler's \<^verbatim>\<open>try\<close>
  block such a day ends exactly like a day whose body is \<^verbatim>\<open>{"records": []}\<close>: same
  result, the date marked as downloaded, the same counters, nothing written.
\<close>

theorem list_by_date_total:
  "(request_with_retry srv (Listbydate d) 3 w = (Returns result, w') \<longrightarrow>
      (\<exists>v. list_by_date srv d w = (Returns v, w')))
   \<and> (request_with_retry srv (Listbydate d) 3 w = (Returns result, w')
        \<and> (result = JNull \<or> \<not> is_dict result) \<longrightarrow>
      list_by_date srv d w = (Returns (JArr []), w'))
   \<and> ((\<forall>a<3. srv (sent w + a) (Listbydate d) = Status429) \<longrightarrow>
      fst (list_by_date srv d w) = Returns (JArr []))
   \<and> ((\<forall>a<3. busy (sent st + a) (Listbydate d) = Status429)
        \<and> quiet (sent st) (Listbydate d) = Ok (JObj [(''records'', JArr [])]) \<longrightarrow>
      fst (fetch_day busy d st) = fst (fetch_day quiet d st)
      \<and> downloaded_dates (snd (fetch_day busy d st)) = insert d (downloaded_dates st)
      \<and> downloaded_dates (snd (fetch_day quiet d st)) = insert d (downloaded_dates st)
      \<and> downloaded_count (snd (fetch_day busy d st))
          = downloaded_count (snd (fetch_day quiet d st))
      \<and> total_tenders (snd (fetch_day busy d st)) = total_tenders (snd (fetch_day quiet d st))
      \<and> writes All_tenders (trace (snd (fetch_day busy d st)))
          = writes All_tenders (trace (snd (fetch_day quiet d st))))"
proof (intro conjI impI)
  assume "request_with_retry srv (Listbydate d) 3 w = (Returns result, w')"
  then show "\<exists>v. list_by_date srv d w = (Returns v, w')"
    by (simp add: list_by_date_def)
next
  assume "request_with_retry srv (Listbydate d) 3 w = (Returns result, w')
        \<and> (result = JNull \<or> \<not> is_dict result)"
  then show "list_by_date srv d w = (Returns (JArr []), w')"
    by (auto simp add: list_by_date_def)
next
  assume "\<forall>a<3. srv (sent w + a) (Listbydate d) = Status429"
  then show "fst (list_by_date srv d w) = Returns (JArr [])"
    by (simp add: list_by_date_def all_busy_fetch)
next
  assume h: "(\<forall>a<3. busy (sent st + a) (Listbydate d) = Status429)
        \<and> quiet (sent st) (Listbydate d) = Ok (JObj [(''records'', JArr [])])"
  then have b: "list_by_date busy d st = (Returns (JArr []), st\<lparr>sent := sent st + 3,
        trace := trace st @ [Call (Listbydate d), Get (Listbydate d), Backoff 10,
           Get (Listbydate d), Backoff 20, Get (Listbydate d), Backoff 30]\<rparr>)"
    by (simp add: list_by_date_def all_busy_fetch)
  from h have q: "list_by_date quiet d st = (Returns (JArr []), st\<lparr>sent := sent st + 1,
        trace := trace st @ [Call (Listbydate d), Get (Listbydate d)]\<rparr>)"
    by (simp add: list_by_date_def first_ok_fetch)
  show "fst (fetch_day busy d st) = fst (fetch_day quiet d st)"
    by (simp add: fetch_day_def b q store_day_def)
  show "downloaded_dates (snd (fetch_day busy d st)) = insert d (downloaded_dates st)"
    by (simp add: fetch_day_def b store_day_def emit_def)
  show "downloaded_dates (snd (fetch_day quiet d st)) = insert d (downloaded_dates st)"
    by (simp add: fetch_day_def q store_day_def emit_def)
  show "downloaded_count (snd (fetch_day busy d st))
          = downloaded_count (snd (fetch_day quiet d st))"
    by (simp add: fetch_day_def b q store_day_def emit_def)
  show "total_tenders (snd (fetch_day busy d st)) = total_tenders (snd (fetch_day quiet d st))"
    by (simp add: fetch_day_def b q store_day_def emit_def)
  show "writes All_tenders (trace (snd (fetch_day busy d st)))
          = writes All_tenders (trace (snd (fetch_day quiet d st)))"
    by (simp add: fetch_day_def b q store_day_def emit_def)
qed

theorem list_by_date_total_witness:
  "list_by_date always_busy ''20260106'' fresh =
     (Returns (JArr []),
      \<lparr>sent = 3,
       trace = [Call (Listbydate ''20260106''), Get (Listbydate ''20260106''), Backoff 10,
                Get (Listbydate ''20260106''), Backoff 20, Get (Listbydate ''20260106''),
                Backoff 30]\<rparr>)
   \<and> fst (fetch_day always_busy ''20260106'' blank) = fst (fetch_day empty_days ''20260106'' blank)
   \<and> downloaded_dates (snd (fetch_day always_busy ''20260106'' blank)) = {''20260106''}"
proof -
  let ?w' = "\<lparr>sent = 3,
       trace = [Call (Listbydate ''20260106''), Get (Listbydate ''20260106''), Backoff 10,
                Get (Listbydate ''20260106''), Backoff 20, Get (Listbydate ''20260106''),
                Backoff 30]\<rparr>"
  have r: "request_with_retry always_busy (Listbydate ''20260106'') 3 fresh = (Returns JNull, ?w')"
    by (simp add: all_busy_fetch always_busy_def fresh_def)
  have h: "(\<forall>a<3. always_busy (sent blank + a) (Listbydate ''20260106'') = Status429)
      \<and> empty_days (sent blank) (Listbydate ''20260106'') = Ok (JObj [(''records'', JArr [])])"
    by (simp add: always_busy_def empty_days_def)
  note t = list_by_date_total[of always_busy "''20260106''" fresh JNull ?w' always_busy blank
      empty_days]
  from t r have "list_by_date always_busy ''20260106'' fresh = (Returns (JArr []), ?w')"
    by blast
  moreover from t h have "fst (fetch_day always_busy ''20260106'' blank)
      = fst (fetch_day empty_days ''20260106'' blank)"
    by blast
  moreover from t h have "downloaded_dates (snd (fetch_day always_busy ''20260106'' blank))
      = insert ''20260106'' (downloaded_dates blank)"
    by blast
  ultimately show ?thesis by (simp add: blank_def)
qed

section \<open>Facts about one date of the list crawl\<close>

lemma request_with_retry_crawl [simp]:
  "downloaded_dates (snd (request_with_retry srv req m st)) = downloaded_dates st"
  "downloaded_count (snd (request_with_retry srv req m st)) = downloaded_count st"
  "total_tenders (snd (request_with_retry srv req m st)) = total_tenders st"
  by (simp_all add: request_with_retry_def)

lemma request_with_retry_writes [simp]:
  "writes f (trace (snd (request_with_retry srv req m w))) = writes f (trace w)"
  by (simp add: request_with_retry_def)

lemma request_with_retry_calls [simp]:
  "calls (trace (snd (request_with_retry srv req m w))) = calls (trace w) @ [req]"
  by (simp add: request_with_retry_def)

lemma request_with_retry_saved_totals [simp]:
  "saved_totals (trace (snd (request_with_retry srv req m w))) = saved_totals (trace w)"
  by (simp add: request_with_retry_def)

lemma list_by_date_snd:
  "snd (list_by_date srv d w) = snd (request_with_retry srv (Listbydate d) 3 w)"
  by (simp add: list_by_date_def split: prod.splits result.splits)

lemma map_of_dict_set: "map_of (dict_set kvs key v) key = Some v"
  by (induction kvs) auto

lemma write_items_crawl [simp]:
  "downloaded_dates (snd (write_items d items st)) = downloaded_dates st"
  "downloaded_count (snd (write_items d items st)) = downloaded_count st"
  "total_tenders (snd (write_items d items st)) = total_tenders st"
  by (induction items arbitrary: st; simp split: result.splits)+

lemma write_items_calls [simp]:
  "calls (trace (snd (write_items d items st))) = calls (trace st)"
  by (induction items arbitrary: st) (simp_all split: result.splits)

lemma write_items_saved_totals [simp]:
  "saved_totals (trace (snd (write_items d items st))) = saved_totals (trace st)"
  by (induction items arbitrary: st) (simp_all split: result.splits)

lemma write_items_dicts:
  "write_items d (map JObj kvss) st =
     (Returns (),
      st\<lparr>trace := trace st
            @ map (\<lambda>kvs. Write All_tenders (JObj (dict_set kvs download_date_key (JStr d)))) kvss\<rparr>)"
  by (induction kvss arbitrary: st) (simp_all add: emit_def)

lemma writes_map_Write [simp]: "writes f (map (\<lambda>x. Write f (g x)) xs) = map g xs"
  by (induction xs) simp_all

lemma write_items_stamped:
  "\<exists>new. writes All_tenders (trace (snd (write_items d items st)))
            = writes All_tenders (trace st) @ new
       \<and> (\<forall>line\<in>set new. is_dict line \<and> dict_get line download_date_key JNull = JStr d)"
proof (induction items arbitrary: st)
  case Nil
  show ?case by simp
next
  case (Cons item items)
  show ?case
  proof (cases item)
    case (JObj kvs)
    let ?line = "JObj (dict_set kvs download_date_key (JStr d))"
    from Cons[of "emit (Write All_tenders ?line) st"]
    obtain new where new: "writes All_tenders
          (trace (snd (write_items d items (emit (Write All_tenders ?line) st))))
        = writes All_tenders (trace st) @ ?line # new"
      "\<forall>line\<in>set new. is_dict line \<and> dict_get line download_date_key JNull = JStr d"
      by auto
    show ?thesis
      by (rule exI[of _ "?line # new"]) (simp add: JObj new map_of_dict_set)
  qed simp_all
qed

lemma store_day_stamped:
  "\<exists>new. writes All_tenders (trace (snd (store_day d data st)))
            = writes All_tenders (trace st) @ new
       \<and> (\<forall>line\<in>set new. is_dict line \<and> dict_get line download_date_key JNull = JStr d)"
proof (cases "\<exists>items. truthy data \<and> py_len data \<noteq> Raises TypeError \<and> py_iter data = Returns items")
  case True
  then obtain items where items: "truthy data" "py_iter data = Returns items" by auto
  then obtain n where n: "py_len data = Returns n" by (cases data) simp_all
  from write_items_stamped[of d items st] obtain new where
    new: "writes All_tenders (trace (snd (write_items d items st)))
            = writes All_tenders (trace st) @ new"
      "\<forall>line\<in>set new. is_dict line \<and> dict_get line download_date_key JNull = JStr d"
    by auto
  show ?thesis
    by (rule exI[of _ new]) (use new in \<open>auto simp add: store_day_def items n split: prod.splits result.splits\<close>)
next
  case False
  then have "writes All_tenders (trace (snd (store_day d data st))) = writes All_tenders (trace st)"
    by (cases data) (auto simp add: store_day_def split: prod.splits result.splits)
  then show ?thesis by simp
qed

lemma list_by_date_writes [simp]:
  "writes f (trace (snd (list_by_date srv d w))) = writes f (trace w)"
  by (simp add: list_by_date_snd)

lemma list_by_date_crawl [simp]:
  "downloaded_dates (snd (list_by_date srv d st)) = downloaded_dates st"
  "downloaded_count (snd (list_by_date srv d st)) = downloaded_count st"
  "total_tenders (snd (list_by_date srv d st)) = total_tenders st"
  by (simp_all add: list_by_date_snd)

lemma list_by_date_calls [simp]:
  "calls (trace (snd (list_by_date srv d w))) = calls (trace w) @ [Listbydate d]"
  by (simp add: list_by_date_snd)

lemma list_by_date_saved_totals [simp]:
  "saved_totals (trace (snd (list_by_date srv d w))) = saved_totals (trace w)"
  by (simp add: list_by_date_snd)

lemma fetch_day_cases:
  obtains e st1 where "list_by_date srv d st = (Raises e, st1)"
      "fetch_day srv d st = (Raises e, st1)"
  | data st1 where "list_by_date srv d st = (Returns data, st1)"
      "fetch_day srv d st = store_day d data st1"
proof (cases "list_by_date srv d st")
  case (Pair r st1)
  then show ?thesis using that by (cases r) (simp_all add: fetch_day_def)
qed

lemma fetch_day_stamped:
  "\<exists>new. writes All_tenders (trace (snd (fetch_day srv d st)))
            = writes All_tenders (trace st) @ new
       \<and> (\<forall>line\<in>set new. is_dict line \<and> dict_get line download_date_key JNull = JStr d)"
proof (cases rule: fetch_day_cases[of srv d st])
  case (1 e st1)
  then have "writes All_tenders (trace st1) = writes All_tenders (trace st)"
    using list_by_date_writes[of All_tenders srv d st] by simp
  then show ?thesis using 1 by simp
next
  case (2 data st1)
  then have "writes All_tenders (trace st1) = writes All_tenders (trace st)"
    using list_by_date_writes[of All_tenders srv d st] by simp
  then show ?thesis using 2 store_day_stamped[of d data st1] by simp
qed

lemma periodic_save_writes [simp]:
  "writes f (trace (snd (periodic_save si st))) = writes f (trace st)"
  by (simp add: periodic_save_def save_progress_def)

lemma periodic_save_crawl [simp]:
  "downloaded_dates (snd (periodic_save si st)) = downloaded_dates st"
  "downloaded_count (snd (periodic_save si st)) = downloaded_count st"
  "total_tenders (snd (periodic_save si st)) = total_tenders st"
  by (simp_all add: periodic_save_def save_progress_def)

lemma periodic_save_calls [simp]:
  "calls (trace (snd (periodic_save si st))) = calls (trace st)"
  by (simp add: periodic_save_def save_progress_def)

lemma iteration_cases:
  obtains "d \<in> downloaded_dates st" "iteration srv si d st = (Returns Skipped, st)"
  | e st1 where "d \<notin> downloaded_dates st" "fetch_day srv d st = (Raises e, st1)"
      "is_request_exception e"
      "iteration srv si d st
         = (Returns Net_failed, emit (Pause 5) (emit (Log (Net_error d)) st1))"
  | e st1 where "d \<notin> downloaded_dates st" "fetch_day srv d st = (Raises e, st1)"
      "\<not> is_request_exception e"
      "iteration srv si d st = periodic_save si (emit (Log (Other_error d)) st1)"
  | st1 where "d \<notin> downloaded_dates st" "fetch_day srv d st = (Returns (), st1)"
      "iteration srv si d st = periodic_save si st1"
proof (cases "d \<in> downloaded_dates st")
  case True
  then show ?thesis using that(1) by (simp add: iteration_def)
next
  case False
  show ?thesis
  proof (cases "fetch_day srv d st")
    case (Pair r st1)
    show ?thesis
    proof (cases r)
      case (Returns u)
      then show ?thesis using that(4)[of st1] False Pair by (simp add: iteration_def)
    next
      case (Raises e)
      then show ?thesis using that(2)[of e st1] that(3)[of e st1] False Pair
        by (cases "is_request_exception e") (simp_all add: iteration_def)
    qed
  qed
qed

lemma iteration_stamped:
  "\<exists>new. writes All_tenders (trace (snd (iteration srv si d st)))
            = writes All_tenders (trace st) @ new
       \<and> (\<forall>line\<in>set new. is_dict line \<and> dict_get line download_date_key JNull = JStr d)"
proof (cases rule: iteration_cases[of d st srv si])
  case 1
  then show ?thesis by simp
next
  case (2 e st1)
  then show ?thesis using fetch_day_stamped[of srv d st] by simp
next
  case (3 e st1)
  then show ?thesis using fetch_day_stamped[of srv d st] by simp
next
  case (4 st1)
  then show ?thesis using fetch_day_stamped[of srv d st] by simp
qed

section \<open>Empty days and stamping\<close>

text \<open>
  C7. When the fetch for a pending date returns \<^verbatim>\<open>{"records": []}\<close>, the loop body
  writes nothing to the data file and adds the date to \<^verbatim>\<open>downloaded_dates\<close>. Whatever
  the server answers, every line the loop body writes for a date is a record that
  carries that date under \<^verbatim>\<open>_download_date\<close>; when the body holds a list of
  records, the lines written are these records, each stamped, in the order received,
  and the date is marked.
\<close>

theorem empty_day_marked:
  "(d \<notin> downloaded_dates st
      \<and> request_with_retry srv (Listbydate d) 3 st
          = (Returns (JObj [(''records'', JArr [])]), st1) \<longrightarrow>
      writes All_tenders (trace (snd (iteration srv save_interval d st)))
        = writes All_tenders (trace st)
      \<and> downloaded_dates (snd (iteration srv save_interval d st))
          = insert d (downloaded_dates st)
      \<and> total_tenders (snd (iteration srv save_interval d st)) = total_tenders st)
   \<and> (\<exists>new. writes All_tenders (trace (snd (iteration srv save_interval d st)))
              = writes All_tenders (trace st) @ new
         \<and> (\<forall>line\<in>set new.
               is_dict line \<and> dict_get line download_date_key JNull = JStr d))
   \<and> (d \<notin> downloaded_dates st
      \<and> request_with_retry srv (Listbydate d) 3 st
          = (Returns (JObj [(''records'', JArr (map JObj kvss))]), st1) \<longrightarrow>
      writes All_tenders (trace (snd (iteration srv save_interval d st)))
        = writes All_tenders (trace st)
          @ map (\<lambda>kvs. JObj (dict_set kvs download_date_key (JStr d))) kvss
      \<and> downloaded_dates (snd (iteration srv save_interval d st))
          = insert d (downloaded_dates st)
      \<and> total_tenders (snd (iteration srv save_interval d st))
          = total_tenders st + int (length kvss))"
proof -
  have records: "writes All_tenders (trace (snd (iteration srv save_interval d st)))
        = writes All_tenders (trace st)
          @ map (\<lambda>kvs. JObj (dict_set kvs download_date_key (JStr d))) kvss
      \<and> downloaded_dates (snd (iteration srv save_interval d st))
          = insert d (downloaded_dates st)
      \<and> total_tenders (snd (iteration srv save_interval d st))
          = total_tenders st + int (length kvss)"
    if pending: "d \<notin> downloaded_dates st"
      and fetched: "request_with_retry srv (Listbydate d) 3 st
          = (Returns (JObj [(''records'', JArr (map JObj kvss))]), st1)"
    for kvss
  proof -
    have st1: "st1 = snd (request_with_retry srv (Listbydate d) 3 st)"
      using fetched by simp
    have same: "writes All_tenders (trace st1) = writes All_tenders (trace st)"
      "downloaded_dates st1 = downloaded_dates st" "total_tenders st1 = total_tenders st"
      by (simp_all add: st1)
    have listed: "list_by_date srv d st = (Returns (JArr (map JObj kvss)), st1)"
      using fetched by (simp add: list_by_date_def)
    have stored: "fetch_day srv d st =
        (Returns (),
         emit (Log (Day_done d (int (length kvss)) (total_tenders st1 + int (length kvss))))
           (st1\<lparr>trace := trace st1
                   @ map (\<lambda>kvs. Write All_tenders
                                   (JObj (dict_set kvs download_date_key (JStr d)))) kvss,
                total_tenders := total_tenders st1 + int (length kvss),
                downloaded_dates := insert d (downloaded_dates st1),
                downloaded_count := downloaded_count st1 + 1\<rparr>))"
      by (cases kvss) (simp_all add: fetch_day_def listed store_day_def write_items_dicts)
    have "iteration srv save_interval d st = periodic_save save_interval (snd (fetch_day srv d st))"
      using pending by (simp add: iteration_def stored)
    then show ?thesis
      by (simp add: stored same)
  qed
  show ?thesis
  proof (intro conjI impI)
    assume h: "d \<notin> downloaded_dates st
      \<and> request_with_retry srv (Listbydate d) 3 st
          = (Returns (JObj [(''records'', JArr [])]), st1)"
    then show "writes All_tenders (trace (snd (iteration srv save_interval d st)))
        = writes All_tenders (trace st)"
      and "downloaded_dates (snd (iteration srv save_interval d st))
          = insert d (downloaded_dates st)"
      and "total_tenders (snd (iteration srv save_interval d st)) = total_tenders st"
      using records[of "[]"] by simp_all
  next
    show "\<exists>new. writes All_tenders (trace (snd (iteration srv save_interval d st)))
              = writes All_tenders (trace st) @ new
         \<and> (\<forall>line\<in>set new.
               is_dict line \<and> dict_get line download_date_key JNull = JStr d)"
      by (rule iteration_stamped)
  next
    assume h: "d \<notin> downloaded_dates st
      \<and> request_with_retry srv (Listbydate d) 3 st
          = (Returns (JObj [(''records'', JArr (map JObj kvss))]), st1)"
    then show "writes All_tenders (trace (snd (iteration srv save_interval d st)))
        = writes All_tenders (trace st)
          @ map (\<lambda>kvs. JObj (dict_set kvs download_date_key (JStr d))) kvss"
      and "downloaded_dates (snd (iteration srv save_interval d st))
          = insert d (downloaded_dates st)"
      and "total_tenders (snd (iteration srv save_interval d st))
          = total_tenders st + int (length kvss)"
      using records[of kvss] by simp_all
  qed
qed

theorem empty_day_marked_witness:
  "writes All_tenders (trace (snd (iteration empty_days 100 ''20260106'' blank))) = []
   \<and> downloaded_dates (snd (iteration empty_days 100 ''20260106'' blank)) = {''20260106''}
   \<and> writes All_tenders (trace (snd (iteration one_record 100 ''20260106'' blank)))
       = [JObj [(''job_number'', JStr ''J1''), (''_download_date'', JStr ''20260106'')]]
   \<and> downloaded_dates (snd (iteration one_record 100 ''20260106'' blank)) = {''20260106''}"
proof -
  let ?st1 = "blank\<lparr>sent := sent blank + 1,
      trace := trace blank @ [Call (Listbydate ''20260106''), Get (Listbydate ''20260106'')]\<rparr>"
  have pending: "''20260106'' \<notin> downloaded_dates blank"
    by (simp add: blank_def)
  have e: "request_with_retry empty_days (Listbydate ''20260106'') 3 blank
      = (Returns (JObj [(''records'', JArr [])]), ?st1)"
    by (simp add: first_ok_fetch empty_days_def)
  have r: "request_with_retry one_record (Listbydate ''20260106'') 3 blank
      = (Returns (JObj [(''records'', JArr (map JObj [[(''job_number'', JStr ''J1'')]]))]), ?st1)"
    by (simp add: first_ok_fetch one_record_def)
  from empty_day_marked[of "''20260106''" blank empty_days ?st1 100] pending e
  have "writes All_tenders (trace (snd (iteration empty_days 100 ''20260106'' blank)))
        = writes All_tenders (trace blank)
      \<and> downloaded_dates (snd (iteration empty_days 100 ''20260106'' blank))
          = insert ''20260106'' (downloaded_dates blank)"
    by blast
  moreover
  from empty_day_marked[of "''20260106''" blank one_record ?st1 100
      "[[(''job_number'', JStr ''J1'')]]"] pending r
  have "writes All_tenders (trace (snd (iteration one_record 100 ''20260106'' blank)))
        = writes All_tenders (trace blank)
          @ map (\<lambda>kvs. JObj (dict_set kvs download_date_key (JStr ''20260106'')))
              [[(''job_number'', JStr ''J1'')]]
      \<and> downloaded_dates (snd (iteration one_record 100 ''20260106'' blank))
          = insert ''20260106'' (downloaded_dates blank)"
    by blast
  ultimately show ?thesis
    by (simp add: blank_def download_date_key_def)
qed

section \<open>Parsing the metadata dates\<close>

lemma str_remove_suffix:
  "CHR ''+'' \<notin> set prefix \<Longrightarrow> str_remove ''+08:00'' (prefix @ ''+08:00'') = prefix"
  by (induction prefix) auto

lemma keys_differ:
  "oldest_key \<noteq> newest_key" "oldest_key \<noteq> count_key" "newest_key \<noteq> count_key"
  by (simp_all add: oldest_key_def newest_key_def count_key_def)

lemma strftime_19990121: "strftime_Ymd (datetime_of 1999 1 21) = ''19990121''"
  by code_simp

text \<open>
  C9. \<^verbatim>\<open>parse_date\<close> removes \<^verbatim>\<open>+08:00\<close> and takes what \<^verbatim>\<open>fromisoformat\<close> makes of
  the rest; an ISO-like string followed by \<^verbatim>\<open>+08:00\<close> is handed over without the
  suffix. When \<^verbatim>\<open>fromisoformat\<close> fails, the first eight characters go to
  \<^verbatim>\<open>strptime\<close> with \<^verbatim>\<open>%Y%m%d\<close>; when that fails too the result is \<^verbatim>\<open>None\<close>, as it
  is for an empty string. When either date of the metadata document is \<^verbatim>\<open>None\<close> the
  range is 1999-01-21 to now. For the metadata document of the scenario the range
  starts on 1999-01-21 and ends on 2026-01-06, the dates \<^verbatim>\<open>fromisoformat\<close> gives for
  the two strings without their suffix.
\<close>

theorem parse_date_fallback:
  "(date_str \<noteq> [] \<and> fromisoformat (str_remove ''+08:00'' date_str) = Some d \<longrightarrow>
      parse_date fromisoformat strptime_Ymd (JStr date_str) = Some d)
   \<and> (CHR ''+'' \<notin> set prefix \<longrightarrow> str_remove ''+08:00'' (prefix @ ''+08:00'') = prefix)
   \<and> (date_str \<noteq> [] \<and> fromisoformat (str_remove ''+08:00'' date_str) = None \<longrightarrow>
      parse_date fromisoformat strptime_Ymd (JStr date_str) = strptime_Ymd (take 8 date_str))
   \<and> parse_date fromisoformat strptime_Ymd (JStr []) = None
   \<and> (is_dict info \<and> format_thousands (dict_get info count_key (JNum 0)) = Returns ()
        \<and> (parse_date fromisoformat strptime_Ymd (dict_get info oldest_key (JStr [])) = None
            \<or> parse_date fromisoformat strptime_Ymd (dict_get info newest_key (JStr [])) = None)
      \<longrightarrow> date_range fromisoformat strptime_Ymd now info = Returns (datetime_of 1999 1 21, now))
   \<and> (fromisoformat ''1999-01-21T00:00:00'' = Some (datetime_of 1999 1 21)
        \<and> fromisoformat ''2026-01-06T00:00:00'' = Some (datetime_of 2026 1 6) \<longrightarrow>
      date_range fromisoformat strptime_Ymd now info_scenario
        = Returns (datetime_of 1999 1 21, datetime_of 2026 1 6))
   \<and> strftime_Ymd (datetime_of 1999 1 21) = ''19990121''
   \<and> strftime_Ymd (datetime_of 2026 1 6) = ''20260106''"
proof (intro conjI impI)
  assume "date_str \<noteq> [] \<and> fromisoformat (str_remove ''+08:00'' date_str) = Some d"
  then show "parse_date fromisoformat strptime_Ymd (JStr date_str) = Some d"
    by (simp add: parse_date_def)
next
  assume "CHR ''+'' \<notin> set prefix"
  then show "str_remove ''+08:00'' (prefix @ ''+08:00'') = prefix"
    by (rule str_remove_suffix)
next
  assume "date_str \<noteq> [] \<and> fromisoformat (str_remove ''+08:00'' date_str) = None"
  then show "parse_date fromisoformat strptime_Ymd (JStr date_str) = strptime_Ymd (take 8 date_str)"
    by (simp add: parse_date_def)
next
  show "parse_date fromisoformat strptime_Ymd (JStr []) = None"
    by (simp add: parse_date_def)
next
  assume "is_dict info \<and> format_thousands (dict_get info count_key (JNum 0)) = Returns ()
        \<and> (parse_date fromisoformat strptime_Ymd (dict_get info oldest_key (JStr [])) = None
            \<or> parse_date fromisoformat strptime_Ymd (dict_get info newest_key (JStr [])) = None)"
  then show "date_range fromisoformat strptime_Ymd now info = Returns (datetime_of 1999 1 21, now)"
    by (auto simp add: date_range_def Let_def split: option.splits)
next
  assume h: "fromisoformat ''1999-01-21T00:00:00'' = Some (datetime_of 1999 1 21)
        \<and> fromisoformat ''2026-01-06T00:00:00'' = Some (datetime_of 2026 1 6)"
  have "str_remove ''+08:00'' ''1999-01-21T00:00:00+08:00'' = ''1999-01-21T00:00:00''"
    "str_remove ''+08:00'' ''2026-01-06T00:00:00+08:00'' = ''2026-01-06T00:00:00''"
    by simp_all
  with h have "parse_date fromisoformat strptime_Ymd (JStr ''1999-01-21T00:00:00+08:00'')
        = Some (datetime_of 1999 1 21)"
      "parse_date fromisoformat strptime_Ymd (JStr ''2026-01-06T00:00:00+08:00'')
        = Some (datetime_of 2026 1 6)"
    by (simp_all add: parse_date_def)
  then show "date_range fromisoformat strptime_Ymd now info_scenario
        = Returns (datetime_of 1999 1 21, datetime_of 2026 1 6)"
    using keys_differ by (simp add: date_range_def info_scenario_def Let_def)
next
  show "strftime_Ymd (datetime_of 1999 1 21) = ''19990121''"
    by (rule strftime_19990121)
next
  show "strftime_Ymd (datetime_of 2026 1 6) = ''20260106''"
    by (rule strftime_20260106)
qed

lemma basic_parsers:
  "fromisoformat_basic ''1999-01-21T00:00:00'' = Some (datetime_of 1999 1 21)"
  "fromisoformat_basic ''2026-01-06T00:00:00'' = Some (datetime_of 2026 1 6)"
  "fromisoformat_basic ''20260106xx'' = None"
  "fromisoformat_basic ''unknown'' = None"
  "strptime_Ymd_basic ''20260106'' = Some (datetime_of 2026 1 6)"
  "strptime_Ymd_basic ''unknown'' = None"
  by code_simp+

theorem parse_date_fallback_witness:
  "date_range fromisoformat_basic strptime_Ymd_basic (datetime_of 2026 11 4) info_scenario
     = Returns (datetime_of 1999 1 21, datetime_of 2026 1 6)
   \<and> parse_date fromisoformat_basic strptime_Ymd_basic (JStr ''20260106xx'')
       = Some (datetime_of 2026 1 6)
   \<and> date_range fromisoformat_basic strptime_Ymd_basic (datetime_of 2026 11 4) info_unparsable
       = Returns (datetime_of 1999 1 21, datetime_of 2026 11 4)"
proof -
  note t = parse_date_fallback[of _ fromisoformat_basic _ strptime_Ymd_basic]
  have "date_range fromisoformat_basic strptime_Ymd_basic (datetime_of 2026 11 4) info_scenario
     = Returns (datetime_of 1999 1 21, datetime_of 2026 1 6)"
    using t[of "''x''" "datetime_of 1 1 1" "''x''" JNull "datetime_of 2026 11 4"] basic_parsers
    by blast
  moreover
  have "parse_date fromisoformat_basic strptime_Ymd_basic (JStr ''20260106xx'')
       = strptime_Ymd_basic (take 8 ''20260106xx'')"
    using t[of "''20260106xx''" "datetime_of 1 1 1" "''x''" JNull "datetime_of 2026 11 4"]
      basic_parsers(3)
    by simp
  then have "parse_date fromisoformat_basic strptime_Ymd_basic (JStr ''20260106xx'')
       = Some (datetime_of 2026 1 6)"
    by (simp add: basic_parsers)
  moreover
  have "parse_date fromisoformat_basic strptime_Ymd_basic
      (dict_get info_unparsable oldest_key (JStr [])) = None"
    by (simp add: info_unparsable_def parse_date_def basic_parsers)
  then have "date_range fromisoformat_basic strptime_Ymd_basic (datetime_of 2026 11 4)
      info_unparsable = Returns (datetime_of 1999 1 21, datetime_of 2026 11 4)"
    using t[of "''x''" "datetime_of 1 1 1" "''x''" info_unparsable "datetime_of 2026 11 4"]
      keys_differ
    by (simp add: info_unparsable_def)
  ultimately show ?thesis by simp
qed

section \<open>Facts about dates and sleeping\<close>

lemma dt_le_comparable: "dt_le a b \<Longrightarrow> comparable a b"
  by (simp add: dt_le_def)

lemma comparable_naive [simp]:
  "comparable (Datetime n us None) (Datetime n' us' None)"
  "comparable (datetime_of y m d) (datetime_of y' m' d')"
  "comparable (Datetime n us None) (datetime_of y' m' d')"
  "comparable (datetime_of y m d) (Datetime n' us' None)"
  by (simp_all add: comparable_def datetime_of_def)

lemma sleep_half_second [simp]: "sleep_error half_second = None"
  by (simp add: half_second_def)

section \<open>Timeouts\<close>

text \<open>
  C5. When all three attempts of a fetch time out, the fetch has slept five seconds
  after the first and the second attempt and raises \<^verbatim>\<open>Timeout\<close> to its caller. The
  list crawler's loop body catches it as a request exception: it logs the date, sleeps
  five seconds and leaves \<^verbatim>\<open>downloaded_dates\<close> and the counters as they were; the loop
  then goes on with the next date.
\<close>

theorem timeout_propagates:
  "((\<forall>a<3. srv (sent w + a) req = Fails Timeout) \<longrightarrow>
      request_with_retry srv req 3 w =
        (Raises Timeout,
         w\<lparr>sent := sent w + 3,
           trace := trace w @ [Call req, Get req, Pause 5, Get req, Pause 5, Get req]\<rparr>))
   \<and> (d \<notin> downloaded_dates st
        \<and> (\<forall>a<3. srv (sent st + a) (Listbydate d) = Fails Timeout) \<longrightarrow>
      iteration srv save_interval d st =
        (Returns Net_failed,
         st\<lparr>sent := sent st + 3,
            trace := trace st @ [Call (Listbydate d), Get (Listbydate d), Pause 5,
                        Get (Listbydate d), Pause 5, Get (Listbydate d),
                        Log (Net_error d), Pause 5]\<rparr>))
   \<and> (dt_le current_date end_date
        \<and> strftime_Ymd current_date \<notin> downloaded_dates st
        \<and> (\<forall>a<3. srv (sent st + a) (Listbydate (strftime_Ymd current_date)) = Fails Timeout)
        \<and> add_day current_date = Some next_date \<longrightarrow>
      crawl_loop srv delay save_interval end_date current_date st =
        crawl_loop srv delay save_interval end_date next_date
          (st\<lparr>sent := sent st + 3,
              trace := trace st
                @ [Call (Listbydate (strftime_Ymd current_date)),
                   Get (Listbydate (strftime_Ymd current_date)), Pause 5,
                   Get (Listbydate (strftime_Ymd current_date)), Pause 5,
                   Get (Listbydate (strftime_Ymd current_date)),
                   Log (Net_error (strftime_Ymd current_date)), Pause 5]\<rparr>))"
proof -
  have step: "iteration srv save_interval d st =
        (Returns Net_failed,
         st\<lparr>sent := sent st + 3,
            trace := trace st @ [Call (Listbydate d), Get (Listbydate d), Pause 5,
                        Get (Listbydate d), Pause 5, Get (Listbydate d),
                        Log (Net_error d), Pause 5]\<rparr>)"
    if "d \<notin> downloaded_dates st" "\<forall>a<3. srv (sent st + a) (Listbydate d) = Fails Timeout"
    for d
    using that
    by (simp add: iteration_def fetch_day_def list_by_date_def all_timeout_fetch emit_def)
  show ?thesis
  proof (intro conjI impI)
    assume "\<forall>a<3. srv (sent w + a) req = Fails Timeout"
    then show "request_with_retry srv req 3 w =
        (Raises Timeout,
         w\<lparr>sent := sent w + 3,
           trace := trace w @ [Call req, Get req, Pause 5, Get req, Pause 5, Get req]\<rparr>)"
      by (rule all_timeout_fetch)
  next
    assume "d \<notin> downloaded_dates st
        \<and> (\<forall>a<3. srv (sent st + a) (Listbydate d) = Fails Timeout)"
    then show "iteration srv save_interval d st =
        (Returns Net_failed,
         st\<lparr>sent := sent st + 3,
            trace := trace st @ [Call (Listbydate d), Get (Listbydate d), Pause 5,
                        Get (Listbydate d), Pause 5, Get (Listbydate d),
                        Log (Net_error d), Pause 5]\<rparr>)"
      using step[of d] by simp
  next
    assume h: "dt_le current_date end_date
        \<and> strftime_Ymd current_date \<notin> downloaded_dates st
        \<and> (\<forall>a<3. srv (sent st + a) (Listbydate (strftime_Ymd current_date)) = Fails Timeout)
        \<and> add_day current_date = Some next_date"
    then have "iteration srv save_interval (strftime_Ymd current_date) st =
        (Returns Net_failed,
         st\<lparr>sent := sent st + 3,
            trace := trace st
                @ [Call (Listbydate (strftime_Ymd current_date)),
                   Get (Listbydate (strftime_Ymd current_date)), Pause 5,
                   Get (Listbydate (strftime_Ymd current_date)), Pause 5,
                   Get (Listbydate (strftime_Ymd current_date)),
                   Log (Net_error (strftime_Ymd current_date)), Pause 5]\<rparr>)"
      using step[of "strftime_Ymd current_date"] by simp
    with h show "crawl_loop srv delay save_interval end_date current_date st =
        crawl_loop srv delay save_interval end_date next_date
          (st\<lparr>sent := sent st + 3,
              trace := trace st
                @ [Call (Listbydate (strftime_Ymd current_date)),
                   Get (Listbydate (strftime_Ymd current_date)), Pause 5,
                   Get (Listbydate (strftime_Ymd current_date)), Pause 5,
                   Get (Listbydate (strftime_Ymd current_date)),
                   Log (Net_error (strftime_Ymd current_date)), Pause 5]\<rparr>)"
      by (subst crawl_loop.simps) (simp add: dt_le_comparable)
  qed
qed

lemma strftime_20260107: "strftime_Ymd (datetime_of 2026 1 7) = ''20260107''"
  by code_simp

lemma next_20260106: "add_day (datetime_of 2026 1 6) = Some (datetime_of 2026 1 7)"
  by (simp add: add_day_def datetime_of_def ymd2ord_def days_before_year_def
      days_before_month_def days_before_month_table_def is_leap_def max_ordinal_def)

lemma next_20260107: "add_day (datetime_of 2026 1 7) = Some (datetime_of 2026 1 8)"
  by (simp add: add_day_def datetime_of_def ymd2ord_def days_before_year_def
      days_before_month_def days_before_month_table_def is_leap_def max_ordinal_def)

lemma order_2026:
  "dt_le (datetime_of 2026 1 6) (datetime_of 2026 1 7)"
  "dt_le (datetime_of 2026 1 7) (datetime_of 2026 1 7)"
  "\<not> dt_le (datetime_of 2026 1 8) (datetime_of 2026 1 7)"
  "dt_le (datetime_of 2026 1 6) (datetime_of 2026 1 6)"
  "\<not> dt_le (datetime_of 2026 1 7) (datetime_of 2026 1 6)"
  by (simp_all add: dt_le_def comparable_def datetime_of_def ymd2ord_def days_before_year_def
      days_before_month_def days_before_month_table_def is_leap_def)

theorem timeout_propagates_witness:
  "crawl_range always_timeout half_second 100 None (datetime_of 2026 1 6) (datetime_of 2026 1 7) fresh =
     (Returns 0,
      \<lparr>sent = 6,
       trace = [Call (Listbydate ''20260106''), Get (Listbydate ''20260106''), Pause 5,
                Get (Listbydate ''20260106''), Pause 5, Get (Listbydate ''20260106''),
                Log (Net_error ''20260106''), Pause 5,
                Call (Listbydate ''20260107''), Get (Listbydate ''20260107''), Pause 5,
                Get (Listbydate ''20260107''), Pause 5, Get (Listbydate ''20260107''),
                Log (Net_error ''20260107''), Pause 5,
                Close All_tenders, Save_progress {} 0],
       downloaded_dates = {}, downloaded_count = 0, total_tenders = 0\<rparr>)"
proof -
  let ?st1 = "blank\<lparr>sent := sent blank + 3,
      trace := trace blank
        @ [Call (Listbydate (strftime_Ymd (datetime_of 2026 1 6))),
           Get (Listbydate (strftime_Ymd (datetime_of 2026 1 6))), Pause 5,
           Get (Listbydate (strftime_Ymd (datetime_of 2026 1 6))), Pause 5,
           Get (Listbydate (strftime_Ymd (datetime_of 2026 1 6))),
           Log (Net_error (strftime_Ymd (datetime_of 2026 1 6))), Pause 5]\<rparr>"
  let ?st2 = "?st1\<lparr>sent := sent ?st1 + 3,
      trace := trace ?st1
        @ [Call (Listbydate (strftime_Ymd (datetime_of 2026 1 7))),
           Get (Listbydate (strftime_Ymd (datetime_of 2026 1 7))), Pause 5,
           Get (Listbydate (strftime_Ymd (datetime_of 2026 1 7))), Pause 5,
           Get (Listbydate (strftime_Ymd (datetime_of 2026 1 7))),
           Log (Net_error (strftime_Ymd (datetime_of 2026 1 7))), Pause 5]\<rparr>"
  have one: "crawl_loop always_timeout half_second 100 (datetime_of 2026 1 7) (datetime_of 2026 1 6) blank
      = crawl_loop always_timeout half_second 100 (datetime_of 2026 1 7) (datetime_of 2026 1 7) ?st1"
    using timeout_propagates[where srv = always_timeout and st = blank
        and current_date = "datetime_of 2026 1 6" and end_date = "datetime_of 2026 1 7"
        and next_date = "datetime_of 2026 1 7" and delay = half_second
        and save_interval = 100 and w = blank and req = "Listbydate ''x''" and d = "''x''"]
    by (simp add: always_timeout_def blank_def order_2026 next_20260106)
  have two: "crawl_loop always_timeout half_second 100 (datetime_of 2026 1 7) (datetime_of 2026 1 7) ?st1
      = crawl_loop always_timeout half_second 100 (datetime_of 2026 1 7) (datetime_of 2026 1 8) ?st2"
    using timeout_propagates[where srv = always_timeout and st = ?st1
        and current_date = "datetime_of 2026 1 7" and end_date = "datetime_of 2026 1 7"
        and next_date = "datetime_of 2026 1 8" and delay = half_second
        and save_interval = 100 and w = blank and req = "Listbydate ''x''" and d = "''x''"]
    by (simp add: always_timeout_def blank_def order_2026 next_20260107)
  have three: "crawl_loop always_timeout half_second 100 (datetime_of 2026 1 7) (datetime_of 2026 1 8) ?st2
      = (Returns (), ?st2)"
    by (subst crawl_loop.simps) (simp add: order_2026)
  have "crawl_range always_timeout half_second 100 None (datetime_of 2026 1 6) (datetime_of 2026 1 7) fresh
      = (Returns (total_tenders ?st2), save_progress (emit (Close All_tenders) ?st2))"
    unfolding crawl_range_def Let_def
    using one two three by (simp add: fresh_def blank_def)
  then show ?thesis
    by (simp add: save_progress_def emit_def blank_def strftime_20260106 strftime_20260107)
qed

section \<open>Rate-limit exhaustion in the list crawl\<close>

text \<open>
  C1. A run over the single date 2026-01-06 against a server that answers every
  request with HTTP 429: the fetch sleeps 10, 20 and 30 seconds and returns
  \<^verbatim>\<open>None\<close> without raising, the date is added to \<^verbatim>\<open>downloaded_dates\<close> with zero
  records, and the final progress file lists it as downloaded.
\<close>

theorem rate_limited_day_marked_complete:
  "crawl_range always_busy half_second 100 None (datetime_of 2026 1 6) (datetime_of 2026 1 6) fresh =
     (Returns 0,
      \<lparr>sent = 3,
       trace = [Call (Listbydate ''20260106''), Get (Listbydate ''20260106''), Backoff 10,
                Get (Listbydate ''20260106''), Backoff 20, Get (Listbydate ''20260106''),
                Backoff 30, Log (Day_done ''20260106'' 0 0), Delay,
                Close All_tenders, Save_progress {''20260106''} 0],
       downloaded_dates = {''20260106''}, downloaded_count = 1, total_tenders = 0\<rparr>)"
proof -
  have day: "iteration always_busy 100 ''20260106'' blank =
      (Returns Processed,
       blank\<lparr>sent := 3,
         trace := [Call (Listbydate ''20260106''), Get (Listbydate ''20260106''), Backoff 10,
                Get (Listbydate ''20260106''), Backoff 20, Get (Listbydate ''20260106''),
                Backoff 30, Log (Day_done ''20260106'' 0 0)],
         downloaded_dates := {''20260106''}, downloaded_count := 1\<rparr>)"
    by (simp add: iteration_def fetch_day_def list_by_date_def all_busy_fetch always_busy_def
        store_day_def periodic_save_def emit_def blank_def)
  have "crawl_loop always_busy half_second 100 (datetime_of 2026 1 6) (datetime_of 2026 1 6) blank =
      (Returns (),
       blank\<lparr>sent := 3,
         trace := [Call (Listbydate ''20260106''), Get (Listbydate ''20260106''), Backoff 10,
                Get (Listbydate ''20260106''), Backoff 20, Get (Listbydate ''20260106''),
                Backoff 30, Log (Day_done ''20260106'' 0 0), Delay],
         downloaded_dates := {''20260106''}, downloaded_count := 1\<rparr>)"
    apply (subst crawl_loop.simps)
    apply (simp add: order_2026 strftime_20260106 day next_20260106)
    apply (subst crawl_loop.simps)
    apply (simp add: order_2026 emit_def)
    done
  then show ?thesis
    by (simp add: crawl_range_def fresh_def blank_def save_progress_def emit_def)
qed

section \<open>Concrete runs\<close>

lemmas run_simps =
  crawl_range_def crawl_loop.simps iteration_def fetch_day_def list_by_date_def
  request_with_retry_def upt_3 store_day_def periodic_save_def save_progress_def emit_def
  order_2026 strftime_20260106 strftime_20260107 next_20260106 next_20260107
  fresh_def download_date_key_def Let_def

lemma one_record_first_run:
  "trace (snd (crawl_range one_record half_second 100 None (datetime_of 2026 1 6) (datetime_of 2026 1 6) fresh))
   = [Call (Listbydate ''20260106''), Get (Listbydate ''20260106''),
      Write All_tenders (JObj [(''job_number'', JStr ''J1''), (''_download_date'', JStr ''20260106'')]),
      Log (Day_done ''20260106'' 1 1), Delay, Close All_tenders,
      Save_progress {''20260106''} 1]"
  by (simp add: run_simps one_record_def)

lemma one_record_resumed_run:
  "trace (snd (crawl_range one_record half_second 100 (Some ({''20260106''}, 1))
       (datetime_of 2026 1 6) (datetime_of 2026 1 6) fresh))
   = [Close All_tenders, Save_progress {''20260106''} 0]"
  by (simp add: run_simps one_record_def)

lemma one_record_every_day_saved:
  "trace (snd (crawl_range one_record half_second 1 None (datetime_of 2026 1 6) (datetime_of 2026 1 6) fresh))
   = [Call (Listbydate ''20260106''), Get (Listbydate ''20260106''),
      Write All_tenders (JObj [(''job_number'', JStr ''J1''), (''_download_date'', JStr ''20260106'')]),
      Log (Day_done ''20260106'' 1 1), Save_progress {''20260106''} 1, Flush All_tenders, Delay,
      Close All_tenders, Save_progress {''20260106''} 1]"
  by (simp add: run_simps one_record_def)

section \<open>Order of the progress write and the data flush\<close>

text \<open>
  C3. A run over the single date 2026-01-06 with one record and
  \<^verbatim>\<open>save_interval = 1\<close>: the periodic save writes the progress file and only then
  flushes the data file. After the fifth effect the progress file lists the date
  while its record is still in the buffer and the data file on disk is empty.
\<close>

theorem progress_written_before_flush:
  "trace (snd (crawl_range one_record half_second 1 None (datetime_of 2026 1 6) (datetime_of 2026 1 6) fresh))
   = [Call (Listbydate ''20260106''), Get (Listbydate ''20260106''),
      Write All_tenders
        (JObj [(''job_number'', JStr ''J1''), (''_download_date'', JStr ''20260106'')]),
      Log (Day_done ''20260106'' 1 1), Save_progress {''20260106''} 1, Flush All_tenders,
      Delay, Close All_tenders, Save_progress {''20260106''} 1]
   \<and> progress (replay empty_disk (take 5 (trace (snd (crawl_range one_record half_second 1 None
         (datetime_of 2026 1 6) (datetime_of 2026 1 6) fresh)))))
       = Some ({''20260106''}, 1)
   \<and> buffered (replay empty_disk (take 5 (trace (snd (crawl_range one_record half_second 1 None
         (datetime_of 2026 1 6) (datetime_of 2026 1 6) fresh))))) All_tenders
       = [JObj [(''job_number'', JStr ''J1''), (''_download_date'', JStr ''20260106'')]]
   \<and> durable (replay empty_disk (take 5 (trace (snd (crawl_range one_record half_second 1 None
         (datetime_of 2026 1 6) (datetime_of 2026 1 6) fresh))))) All_tenders
       = []"
  by (simp add: one_record_every_day_saved replay_def empty_disk_def)

section \<open>The stored total across runs\<close>

text \<open>
  C4. A first run over the single date 2026-01-06 with one record leaves the progress
  file with that date and the total 1, and the record in the data file. A second run
  that loads this progress file starts \<^verbatim>\<open>total_tenders\<close> at zero, skips the date and
  overwrites the stored total with 0: \<^verbatim>\<open>get_statistics\<close> then reports one downloaded
  day and zero tenders, while the data file still holds the record.
\<close>

theorem resumed_run_overwrites_total:
  "progress (replay empty_disk (trace (snd (crawl_range one_record half_second 100 None
       (datetime_of 2026 1 6) (datetime_of 2026 1 6) fresh))))
     = Some ({''20260106''}, 1)
   \<and> get_statistics (progress (replay empty_disk (trace (snd (crawl_range one_record
       half_second 100 None (datetime_of 2026 1 6) (datetime_of 2026 1 6) fresh)))))
     = (1, 1)
   \<and> crawl_range one_record half_second 100 (Some ({''20260106''}, 1))
       (datetime_of 2026 1 6) (datetime_of 2026 1 6) fresh
     = (Returns 0,
        \<lparr>sent = 0, trace = [Close All_tenders, Save_progress {''20260106''} 0],
         downloaded_dates = {''20260106''}, downloaded_count = 0, total_tenders = 0\<rparr>)
   \<and> saved_totals (trace (snd (crawl_range one_record half_second 100 None
         (datetime_of 2026 1 6) (datetime_of 2026 1 6) fresh))
       @ trace (snd (crawl_range one_record half_second 100 (Some ({''20260106''}, 1))
         (datetime_of 2026 1 6) (datetime_of 2026 1 6) fresh)))
     = [1, 0]
   \<and> get_statistics (progress (replay empty_disk
       (trace (snd (crawl_range one_record half_second 100 None
          (datetime_of 2026 1 6) (datetime_of 2026 1 6) fresh))
        @ trace (snd (crawl_range one_record half_second 100 (Some ({''20260106''}, 1))
          (datetime_of 2026 1 6) (datetime_of 2026 1 6) fresh)))))
     = (1, 0)
   \<and> durable (replay empty_disk
       (trace (snd (crawl_range one_record half_second 100 None
          (datetime_of 2026 1 6) (datetime_of 2026 1 6) fresh))
        @ trace (snd (crawl_range one_record half_second 100 (Some ({''20260106''}, 1))
          (datetime_of 2026 1 6) (datetime_of 2026 1 6) fresh)))) All_tenders
     = [JObj [(''job_number'', JStr ''J1''), (''_download_date'', JStr ''20260106'')]]"
proof -
  have second: "crawl_range one_record half_second 100 (Some ({''20260106''}, 1))
       (datetime_of 2026 1 6) (datetime_of 2026 1 6) fresh
     = (Returns 0,
        \<lparr>sent = 0, trace = [Close All_tenders, Save_progress {''20260106''} 0],
         downloaded_dates = {''20260106''}, downloaded_count = 0, total_tenders = 0\<rparr>)"
    by (simp add: run_simps one_record_def)
  show ?thesis
    by (simp add: one_record_first_run second replay_def empty_disk_def get_statistics_def)
qed

section \<open>A pair that occurs twice in the list file\<close>

lemma tender_ids:
  "tender_id_of fmt tender_a = ''U1_J1''" "tender_id_of fmt tender_b = ''U2_J2''"
  by (simp_all add: tender_id_of_def fmt_field_def tender_a_def tender_b_def)

text \<open>
  C2. The list file holds the same record twice and there is no detail checkpoint.
  \<^verbatim>\<open>downloaded_ids\<close> is consulted only while the candidate list is built, so both
  lines become candidates; the loop fetches the pair twice, by two HTTP requests, and
  writes the detail document twice. With the pair in the loaded checkpoint the same
  file causes no fetch at all.
\<close>

theorem repeated_pair_fetched_twice:
  "download_tender_details one_detail (\<lambda>v. ''?'') half_second 1000
      (Some [Some tender_a, Some tender_a]) None fresh
   = (Returns (),
      \<lparr>sent = 2,
       trace = [Call (Tender (JStr ''U1'') (JStr ''J1'')), Get (Tender (JStr ''U1'') (JStr ''J1'')),
                Write Tender_details (JObj [(''detail'', JStr ''D'')]), Delay,
                Call (Tender (JStr ''U1'') (JStr ''J1'')), Get (Tender (JStr ''U1'') (JStr ''J1'')),
                Write Tender_details (JObj [(''detail'', JStr ''D'')]), Delay,
                Close Tender_details, Save_details {''U1_J1''}],
       downloaded_ids = {''U1_J1''}, count = 2\<rparr>)
   \<and> calls (trace (snd (download_tender_details one_detail (\<lambda>v. ''?'') half_second 1000
      (Some [Some tender_a, Some tender_a]) None fresh)))
     = [Tender (JStr ''U1'') (JStr ''J1''), Tender (JStr ''U1'') (JStr ''J1'')]
   \<and> durable (replay empty_disk (trace (snd (download_tender_details one_detail
      (\<lambda>v. ''?'') half_second 1000 (Some [Some tender_a, Some tender_a]) None fresh))))
      Tender_details
     = [JObj [(''detail'', JStr ''D'')], JObj [(''detail'', JStr ''D'')]]
   \<and> calls (trace (snd (download_tender_details one_detail (\<lambda>v. ''?'') half_second 1000
      (Some [Some tender_a, Some tender_a]) (Some {''U1_J1''}) fresh)))
     = []"
proof -
  have run: "download_tender_details one_detail (\<lambda>v. ''?'') half_second 1000
      (Some [Some tender_a, Some tender_a]) None fresh
   = (Returns (),
      \<lparr>sent = 2,
       trace = [Call (Tender (JStr ''U1'') (JStr ''J1'')), Get (Tender (JStr ''U1'') (JStr ''J1'')),
                Write Tender_details (JObj [(''detail'', JStr ''D'')]), Delay,
                Call (Tender (JStr ''U1'') (JStr ''J1'')), Get (Tender (JStr ''U1'') (JStr ''J1'')),
                Write Tender_details (JObj [(''detail'', JStr ''D'')]), Delay,
                Close Tender_details, Save_details {''U1_J1''}],
       downloaded_ids = {''U1_J1''}, count = 2\<rparr>)"
    by (simp add: download_tender_details_def fetch_detail_def get_tender_detail_def
        request_with_retry_def upt_3 Let_def emit_def tender_ids one_detail_def fresh_def)
      (simp add: tender_a_def)
  have skip: "calls (trace (snd (download_tender_details one_detail (\<lambda>v. ''?'') half_second 1000
      (Some [Some tender_a, Some tender_a]) (Some {''U1_J1''}) fresh)))
     = []"
    by (simp add: download_tender_details_def Let_def emit_def tender_ids fresh_def)
  show ?thesis
    by (simp add: run skip replay_def empty_disk_def)
qed

section \<open>A range that starts at a time of day\<close>

lemma ordinals_2026:
  "ymd2ord 2026 1 6 = 739622" "ymd2ord 2026 1 7 = 739623"
  by (simp_all add: ymd2ord_def days_before_year_def days_before_month_def
      days_before_month_table_def is_leap_def)

lemma noon_steps:
  "dt_le (Datetime (ymd2ord 2026 1 6) 43200000000 None) (datetime_of 2026 1 7)"
  "strftime_Ymd (Datetime (ymd2ord 2026 1 6) 43200000000 None) = ''20260106''"
  "add_day (Datetime (ymd2ord 2026 1 6) 43200000000 None)
     = Some (Datetime (ymd2ord 2026 1 7) 43200000000 None)"
  "\<not> dt_le (Datetime (ymd2ord 2026 1 7) 43200000000 None) (datetime_of 2026 1 7)"
proof -
  show "dt_le (Datetime (ymd2ord 2026 1 6) 43200000000 None) (datetime_of 2026 1 7)"
    by (simp add: dt_le_def comparable_def datetime_of_def ordinals_2026)
  have "strftime_Ymd (Datetime (ymd2ord 2026 1 6) 43200000000 None)
      = strftime_Ymd (datetime_of 2026 1 6)"
    by (simp add: strftime_Ymd_def datetime_of_def)
  then show "strftime_Ymd (Datetime (ymd2ord 2026 1 6) 43200000000 None) = ''20260106''"
    by (simp add: strftime_20260106)
  show "add_day (Datetime (ymd2ord 2026 1 6) 43200000000 None)
     = Some (Datetime (ymd2ord 2026 1 7) 43200000000 None)"
    by (simp add: add_day_def ordinals_2026 max_ordinal_def)
  show "\<not> dt_le (Datetime (ymd2ord 2026 1 7) 43200000000 None) (datetime_of 2026 1 7)"
    by (simp add: dt_le_def comparable_def datetime_of_def)
qed

lemma digit_values:
  "digit_value CHR ''0'' = Some 0" "digit_value CHR ''1'' = Some 1"
  "digit_value CHR ''2'' = Some 2" "digit_value CHR ''6'' = Some 6"
  "digit_value CHR ''7'' = Some 7"
  by (simp_all add: digit_value_def)

lemma noon_parsed:
  "fromisoformat_basic ''2026-01-06T12:00:00'' = Some (Datetime (ymd2ord 2026 1 6) 43200000000 None)"
  "fromisoformat_basic ''2026-01-07T00:00:00'' = Some (datetime_of 2026 1 7)"
  by (simp_all add: fromisoformat_basic_def make_datetime_def digit_values days_in_month_def
      days_in_month_table_def is_leap_def datetime_of_def Let_def)

lemma noon_day:
  "iteration noon_server 100 ''20260106''
     \<lparr>sent = Suc 0, trace = [Call Getinfo, Get Getinfo], downloaded_dates = {},
      downloaded_count = 0, total_tenders = 0\<rparr>
   = (Returns Processed,
      \<lparr>sent = 2,
       trace = [Call Getinfo, Get Getinfo, Call (Listbydate ''20260106''),
                Get (Listbydate ''20260106''), Log (Day_done ''20260106'' 0 0)],
       downloaded_dates = {''20260106''}, downloaded_count = 1, total_tenders = 0\<rparr>)"
  by (simp add: iteration_def fetch_day_def list_by_date_def
        request_with_retry_def upt_3 store_day_def periodic_save_def emit_def
        noon_server_def Let_def)

lemma noon_crawl:
  "crawl_range noon_server half_second 100 None (Datetime (ymd2ord 2026 1 6) 43200000000 None)
     (datetime_of 2026 1 7) \<lparr>sent = Suc 0, trace = [Call Getinfo, Get Getinfo]\<rparr>
   = (Returns 0,
      \<lparr>sent = 2,
       trace = [Call Getinfo, Get Getinfo, Call (Listbydate ''20260106''),
                Get (Listbydate ''20260106''), Log (Day_done ''20260106'' 0 0), Delay,
                Close All_tenders, Save_progress {''20260106''} 0],
       downloaded_dates = {''20260106''}, downloaded_count = 1, total_tenders = 0\<rparr>)"
proof -
  have "crawl_loop noon_server half_second 100 (datetime_of 2026 1 7)
      (Datetime (ymd2ord 2026 1 6) 43200000000 None)
      \<lparr>sent = Suc 0, trace = [Call Getinfo, Get Getinfo], downloaded_dates = {},
       downloaded_count = 0, total_tenders = 0\<rparr>
    = (Returns (),
       \<lparr>sent = 2,
       trace = [Call Getinfo, Get Getinfo, Call (Listbydate ''20260106''),
                Get (Listbydate ''20260106''), Log (Day_done ''20260106'' 0 0), Delay],
       downloaded_dates = {''20260106''}, downloaded_count = 1, total_tenders = 0\<rparr>)"
    apply (subst crawl_loop.simps)
    apply (simp add: noon_steps noon_day)
    apply (subst crawl_loop.simps)
    apply (simp add: noon_steps emit_def)
    done
  then show ?thesis
    by (simp add: crawl_range_def save_progress_def emit_def)
qed

text \<open>
  C6. The metadata gives noon of 2026-01-06 as the oldest time and midnight of
  2026-01-07 as the newest. \<^verbatim>\<open>parse_date\<close> keeps the time of day, so the range is
  2026-01-06 12:00 to 2026-01-07 00:00; after the first date the loop compares
  2026-01-07 12:00 with the end and stops. The run returns normally, its only list
  request is for 2026-01-06, and \<^verbatim>\<open>20260107\<close>, the date string of the end of the
  range, is never requested and never marked.
\<close>

theorem newest_day_never_fetched:
  "date_range fromisoformat_basic strptime_Ymd_basic (datetime_of 2026 11 4) info_noon
     = Returns (Datetime (ymd2ord 2026 1 6) 43200000000 None, datetime_of 2026 1 7)
   \<and> strftime_Ymd (datetime_of 2026 1 7) = ''20260107''
   \<and> download_all_data noon_server fromisoformat_basic strptime_Ymd_basic
        (datetime_of 2026 11 4) half_second 100 None fresh
      = (Returns 0,
         \<lparr>sent = 2,
          trace = [Call Getinfo, Get Getinfo, Call (Listbydate ''20260106''),
                   Get (Listbydate ''20260106''), Log (Day_done ''20260106'' 0 0), Delay,
                   Close All_tenders, Save_progress {''20260106''} 0]\<rparr>)
   \<and> calls (trace (snd (download_all_data noon_server fromisoformat_basic strptime_Ymd_basic
        (datetime_of 2026 11 4) half_second 100 None fresh)))
      = [Getinfo, Listbydate ''20260106'']
   \<and> progress (replay empty_disk (trace (snd (download_all_data noon_server
        fromisoformat_basic strptime_Ymd_basic (datetime_of 2026 11 4) half_second 100 None
        fresh))))
      = Some ({''20260106''}, 0)"
proof -
  have rng: "date_range fromisoformat_basic strptime_Ymd_basic (datetime_of 2026 11 4) info_noon
     = Returns (Datetime (ymd2ord 2026 1 6) 43200000000 None, datetime_of 2026 1 7)"
    using keys_differ
    by (simp add: date_range_def info_noon_def parse_date_def noon_parsed Let_def)
  have info: "get_info noon_server fresh
      = (Returns info_noon, \<lparr>sent = 1, trace = [Call Getinfo, Get Getinfo]\<rparr>)"
    by (simp add: get_info_def request_with_retry_def upt_3 noon_server_def emit_def fresh_def
        Let_def)
  have run: "download_all_data noon_server fromisoformat_basic strptime_Ymd_basic
        (datetime_of 2026 11 4) half_second 100 None fresh
      = (Returns 0,
         \<lparr>sent = 2,
          trace = [Call Getinfo, Get Getinfo, Call (Listbydate ''20260106''),
                   Get (Listbydate ''20260106''), Log (Day_done ''20260106'' 0 0), Delay,
                   Close All_tenders, Save_progress {''20260106''} 0]\<rparr>)"
    by (simp add: download_all_data_def info rng noon_crawl world.truncate_def)
  show ?thesis
    by (simp add: rng strftime_20260107 run replay_def empty_disk_def)
qed

section \<open>Facts about the waits of one call\<close>

text \<open>Attempts i, i+1, ... of one call: request number n0 + a answers attempt a.\<close>

lemma attempts_backoffs:
  "sent w = n0 + i \<Longrightarrow> i \<le> m \<Longrightarrow>
   \<exists>k. i \<le> k \<and> k \<le> m \<and> sent (snd (attempts srv req m [i..<m] w)) = n0 + k \<and>
       backoffs (trace (snd (attempts srv req m [i..<m] w)))
         = backoffs (trace w)
           @ map (\<lambda>a. 10 * (a + 1)) (filter (\<lambda>a. srv (n0 + a) req = Status429) [i..<k])"
proof (induction "m - i" arbitrary: i w)
  case 0
  then have "i = m" by simp
  then show ?case using 0 by (intro exI[of _ m]) simp
next
  case (Suc d)
  then have lt: "i < m" and d: "d = m - Suc i" by simp_all
  have upt: "[i..<m] = i # [Suc i..<m]" using lt by (simp add: upt_conv_Cons)
  let ?w1 = "emit (Get req) (w\<lparr>sent := sent w + 1\<rparr>)"
  show ?case
  proof (cases "srv (sent w) req")
    case Status429
    let ?w2 = "emit (Backoff (10 * (i + 1))) ?w1"
    have "sent ?w2 = n0 + Suc i" using Suc.prems by simp
    from Suc.hyps(1)[OF d this] lt
    obtain k where k: "Suc i \<le> k" "k \<le> m" "sent (snd (attempts srv req m [Suc i..<m] ?w2)) = n0 + k"
      "backoffs (trace (snd (attempts srv req m [Suc i..<m] ?w2))) = backoffs (trace ?w2)
           @ map (\<lambda>a. 10 * (a + 1)) (filter (\<lambda>a. srv (n0 + a) req = Status429) [Suc i..<k])"
      by auto
    have "[i..<k] = i # [Suc i..<k]" using k(1) by (simp add: upt_conv_Cons)
    then show ?thesis using k Status429 Suc.prems
      by (intro exI[of _ k]) (simp add: upt Let_def)
  next
    case (Ok body)
    then show ?thesis using lt Suc.prems
      by (intro exI[of _ "Suc i"]) (simp add: upt Let_def)
  next
    case (Fails e)
    show ?thesis
    proof (cases "e = Timeout \<and> int i < int m - 1")
      case True
      let ?w2 = "emit (Pause 5) ?w1"
      have "sent ?w2 = n0 + Suc i" using Suc.prems by simp
      from Suc.hyps(1)[OF d this] lt
      obtain k where k: "Suc i \<le> k" "k \<le> m" "sent (snd (attempts srv req m [Suc i..<m] ?w2)) = n0 + k"
        "backoffs (trace (snd (attempts srv req m [Suc i..<m] ?w2))) = backoffs (trace ?w2)
           @ map (\<lambda>a. 10 * (a + 1)) (filter (\<lambda>a. srv (n0 + a) req = Status429) [Suc i..<k])"
        by auto
      have "[i..<k] = i # [Suc i..<k]" using k(1) by (simp add: upt_conv_Cons)
      then show ?thesis using k Fails True Suc.prems
        by (intro exI[of _ k]) (simp add: upt Let_def)
    next
      case False
      then show ?thesis using lt Suc.prems Fails
        by (intro exI[of _ "Suc i"]) (auto simp add: upt Let_def)
    qed
  qed
qed

lemma attempts_sent_mono:
  "sent w \<le> sent (snd (attempts srv req m xs w))"
proof (induction xs arbitrary: w)
  case Nil
  show ?case by simp
next
  case (Cons a xs)
  let ?w1 = "emit (Get req) (w\<lparr>sent := sent w + 1\<rparr>)"
  have one: "sent w \<le> sent (snd (attempts srv req m xs (emit (Backoff (10 * (a + 1))) ?w1)))"
    using Cons[of "emit (Backoff (10 * (a + 1))) ?w1"] by simp
  have two: "sent w \<le> sent (snd (attempts srv req m xs (emit (Pause 5) ?w1)))"
    using Cons[of "emit (Pause 5) ?w1"] by simp
  show ?case
    using one two by (simp add: Let_def split: response.splits)
qed

lemma attempts_gets:
  fixes w :: "'a world_scheme"
  shows "gets (trace (snd (attempts srv req m xs w)))
   = gets (trace w) @ replicate (sent (snd (attempts srv req m xs w)) - sent w) req"
proof (induction xs arbitrary: w)
  case Nil
  show ?case by simp
next
  case (Cons a xs)
  let ?w1 = "emit (Get req) (w\<lparr>sent := sent w + 1\<rparr>)"
  have step: "gets (trace (snd (attempts srv req m xs w2)))
      = gets (trace w) @ replicate (sent (snd (attempts srv req m xs w2)) - sent w) req"
    if "sent w2 = sent w + 1" "gets (trace w2) = gets (trace w) @ [req]"
    for w2 :: "'a world_scheme"
  proof -
    have "sent w + 1 \<le> sent (snd (attempts srv req m xs w2))"
      using attempts_sent_mono[of w2 srv req m xs] that by simp
    then have "sent (snd (attempts srv req m xs w2)) - sent w
        = Suc (sent (snd (attempts srv req m xs w2)) - sent w2)"
      using that by simp
    then show ?thesis
      using Cons[of w2] that by simp
  qed
  have one: "gets (trace (snd (attempts srv req m xs (emit (Backoff (10 * (a + 1))) ?w1))))
      = gets (trace w) @ replicate
          (sent (snd (attempts srv req m xs (emit (Backoff (10 * (a + 1))) ?w1))) - sent w) req"
    by (rule step) simp_all
  have two: "gets (trace (snd (attempts srv req m xs (emit (Pause 5) ?w1))))
      = gets (trace w) @ replicate
          (sent (snd (attempts srv req m xs (emit (Pause 5) ?w1))) - sent w) req"
    by (rule step) simp_all
  show ?case
    using one two by (simp add: Let_def split: response.splits)
qed

lemma request_with_retry_gets:
  "gets (trace (snd (request_with_retry srv req max_retries w)))
   = gets (trace w)
     @ replicate (sent (snd (request_with_retry srv req max_retries w)) - sent w) req"
  using attempts_gets[of srv req max_retries "[0..<max_retries]" "emit (Call req) w"]
  by (simp add: request_with_retry_def)

lemma request_with_retry_backoffs:
  "sent (snd (request_with_retry srv req max_retries w)) - sent w \<le> max_retries
   \<and> backoffs (trace (snd (request_with_retry srv req max_retries w)))
       = backoffs (trace w)
         @ map (\<lambda>a. 10 * (a + 1))
             (filter (\<lambda>a. srv (sent w + a) req = Status429)
                [0..<sent (snd (request_with_retry srv req max_retries w)) - sent w])"
proof -
  have "sent (emit (Call req) w) = sent w + 0" by simp
  from attempts_backoffs[OF this, of max_retries srv req]
  obtain k where k: "k \<le> max_retries"
    "sent (snd (attempts srv req max_retries [0..<max_retries] (emit (Call req) w))) = sent w + k"
    "backoffs (trace (snd (attempts srv req max_retries [0..<max_retries] (emit (Call req) w))))
      = backoffs (trace (emit (Call req) w))
        @ map (\<lambda>a. 10 * (a + 1)) (filter (\<lambda>a. srv (sent w + a) req = Status429) [0..<k])"
    by auto
  then show ?thesis
    by (simp add: request_with_retry_def)
qed

lemma busy_twice_day:
  assumes "srv (sent st) (Listbydate d) = Status429"
    "srv (sent st + 1) (Listbydate d) = Status429"
    "srv (sent st + 2) (Listbydate d) = Ok (JObj [(''records'', JArr (map JObj kvss))])"
  shows "fetch_day srv d st =
     (Returns (),
      st\<lparr>sent := sent st + 3,
         trace := trace st
           @ [Call (Listbydate d), Get (Listbydate d), Backoff 10, Get (Listbydate d),
              Backoff 20, Get (Listbydate d)]
           @ map (\<lambda>kvs. Write All_tenders (JObj (dict_set kvs download_date_key (JStr d)))) kvss
           @ [Log (Day_done d (int (length kvss)) (total_tenders st + int (length kvss)))],
         downloaded_dates := insert d (downloaded_dates st),
         downloaded_count := downloaded_count st + 1,
         total_tenders := total_tenders st + int (length kvss)\<rparr>)"
proof (cases kvss)
  case Nil
  then show ?thesis
    using assms by (simp add: fetch_day_def list_by_date_def busy_twice_fetch store_day_def emit_def)
next
  case (Cons kvs rest)
  then have "kvss \<noteq> []" by simp
  then show ?thesis
    using assms
    by (simp add: fetch_day_def list_by_date_def busy_twice_fetch store_day_def
        write_items_dicts emit_def)
qed

lemma backoffs_map_Write [simp]: "backoffs (map (\<lambda>x. Write f (g x)) xs) = []"
  by (induction xs) simp_all

lemma periodic_save_backoffs [simp]:
  "backoffs (trace (snd (periodic_save si st))) = backoffs (trace st)"
  by (simp add: periodic_save_def save_progress_def)

lemma periodic_save_path: "si \<noteq> 0 \<Longrightarrow> fst (periodic_save si st) = Returns Processed"
  by (simp add: periodic_save_def)

section \<open>Backoff on rate limiting\<close>

text \<open>
  C8. One call of \<^verbatim>\<open>_request_with_retry\<close> sends at most \<^verbatim>\<open>max_retries\<close> requests, all
  for the same resource, and its waits after HTTP 429 are \<open>10 * (attempt + 1)\<close> for
  exactly the attempts answered 429, so the waits of one call increase strictly. When
  the server answers 429, 429 and then a body, the call sleeps 10 and then 20 seconds
  and returns the body. When that body carries the records of a pending date, the list
  crawler writes every record stamped with the date, in order, adds their number to
  \<^verbatim>\<open>total_tenders\<close>, marks the date as downloaded and counts it, exactly as after a
  fetch that was not throttled.
\<close>

theorem backoff_increasing:
  "sent (snd (request_with_retry srv req max_retries w)) - sent w \<le> max_retries
   \<and> gets (trace (snd (request_with_retry srv req max_retries w)))
       = gets (trace w)
         @ replicate (sent (snd (request_with_retry srv req max_retries w)) - sent w) req
   \<and> backoffs (trace (snd (request_with_retry srv req max_retries w)))
       = backoffs (trace w)
         @ map (\<lambda>a. 10 * (a + 1))
             (filter (\<lambda>a. srv (sent w + a) req = Status429)
                [0..<sent (snd (request_with_retry srv req max_retries w)) - sent w])
   \<and> sorted_wrt (<)
        (drop (length (backoffs (trace w)))
           (backoffs (trace (snd (request_with_retry srv req max_retries w)))))
   \<and> (srv (sent w) req = Status429 \<and> srv (sent w + 1) req = Status429
        \<and> srv (sent w + 2) req = Ok body \<longrightarrow>
      request_with_retry srv req 3 w =
        (Returns body, w\<lparr>sent := sent w + 3,
           trace := trace w @ [Call req, Get req, Backoff 10, Get req, Backoff 20, Get req]\<rparr>))
   \<and> (srv (sent st) (Listbydate d) = Status429 \<and> srv (sent st + 1) (Listbydate d) = Status429
        \<and> srv (sent st + 2) (Listbydate d) = Ok (JObj [(''records'', JArr (map JObj kvss))])
        \<longrightarrow>
      fetch_day srv d st =
        (Returns (),
         st\<lparr>sent := sent st + 3,
            trace := trace st
              @ [Call (Listbydate d), Get (Listbydate d), Backoff 10, Get (Listbydate d),
                 Backoff 20, Get (Listbydate d)]
              @ map (\<lambda>kvs. Write All_tenders (JObj (dict_set kvs download_date_key (JStr d))))
                  kvss
              @ [Log (Day_done d (int (length kvss)) (total_tenders st + int (length kvss)))],
            downloaded_dates := insert d (downloaded_dates st),
            downloaded_count := downloaded_count st + 1,
            total_tenders := total_tenders st + int (length kvss)\<rparr>))
   \<and> (srv (sent st) (Listbydate d) = Status429 \<and> srv (sent st + 1) (Listbydate d) = Status429
        \<and> srv (sent st + 2) (Listbydate d) = Ok (JObj [(''records'', JArr (map JObj kvss))])
        \<and> d \<notin> downloaded_dates st \<and> save_interval \<noteq> 0 \<longrightarrow>
      fst (iteration srv save_interval d st) = Returns Processed
      \<and> backoffs (trace (snd (iteration srv save_interval d st)))
          = backoffs (trace st) @ [10, 20]
      \<and> writes All_tenders (trace (snd (iteration srv save_interval d st)))
          = writes All_tenders (trace st)
            @ map (\<lambda>kvs. JObj (dict_set kvs download_date_key (JStr d))) kvss
      \<and> downloaded_dates (snd (iteration srv save_interval d st))
          = insert d (downloaded_dates st)
      \<and> downloaded_count (snd (iteration srv save_interval d st)) = downloaded_count st + 1
      \<and> total_tenders (snd (iteration srv save_interval d st))
          = total_tenders st + int (length kvss))"
proof (intro conjI impI)
  show "sent (snd (request_with_retry srv req max_retries w)) - sent w \<le> max_retries"
    using request_with_retry_backoffs[of srv req max_retries w] by (rule conjunct1)
  show "gets (trace (snd (request_with_retry srv req max_retries w)))
       = gets (trace w)
         @ replicate (sent (snd (request_with_retry srv req max_retries w)) - sent w) req"
    by (rule request_with_retry_gets)
  show eq: "backoffs (trace (snd (request_with_retry srv req max_retries w)))
       = backoffs (trace w)
         @ map (\<lambda>a. 10 * (a + 1))
             (filter (\<lambda>a. srv (sent w + a) req = Status429)
                [0..<sent (snd (request_with_retry srv req max_retries w)) - sent w])"
    using request_with_retry_backoffs[of srv req max_retries w] by (rule conjunct2)
  show "sorted_wrt (<)
        (drop (length (backoffs (trace w)))
           (backoffs (trace (snd (request_with_retry srv req max_retries w)))))"
  proof -
    have "drop (length (backoffs (trace w)))
           (backoffs (trace (snd (request_with_retry srv req max_retries w))))
        = map (\<lambda>a. 10 * (a + 1))
             (filter (\<lambda>a. srv (sent w + a) req = Status429)
                [0..<sent (snd (request_with_retry srv req max_retries w)) - sent w])"
      by (subst eq) simp
    then show ?thesis
      by (simp only: strictly_increasing_waits)
  qed
next
  assume "srv (sent w) req = Status429 \<and> srv (sent w + 1) req = Status429
        \<and> srv (sent w + 2) req = Ok body"
  then show "request_with_retry srv req 3 w =
        (Returns body, w\<lparr>sent := sent w + 3,
           trace := trace w @ [Call req, Get req, Backoff 10, Get req, Backoff 20, Get req]\<rparr>)"
    by (simp add: busy_twice_fetch)
next
  assume h: "srv (sent st) (Listbydate d) = Status429 \<and> srv (sent st + 1) (Listbydate d) = Status429
        \<and> srv (sent st + 2) (Listbydate d) = Ok (JObj [(''records'', JArr (map JObj kvss))])"
  then show "fetch_day srv d st =
        (Returns (),
         st\<lparr>sent := sent st + 3,
            trace := trace st
              @ [Call (Listbydate d), Get (Listbydate d), Backoff 10, Get (Listbydate d),
                 Backoff 20, Get (Listbydate d)]
              @ map (\<lambda>kvs. Write All_tenders (JObj (dict_set kvs download_date_key (JStr d))))
                  kvss
              @ [Log (Day_done d (int (length kvss)) (total_tenders st + int (length kvss)))],
            downloaded_dates := insert d (downloaded_dates st),
            downloaded_count := downloaded_count st + 1,
            total_tenders := total_tenders st + int (length kvss)\<rparr>)"
    by (simp add: busy_twice_day)
next
  assume h: "srv (sent st) (Listbydate d) = Status429 \<and> srv (sent st + 1) (Listbydate d) = Status429
        \<and> srv (sent st + 2) (Listbydate d) = Ok (JObj [(''records'', JArr (map JObj kvss))])
        \<and> d \<notin> downloaded_dates st \<and> save_interval \<noteq> 0"
  let ?st1 = "st\<lparr>sent := sent st + 3,
            trace := trace st
              @ [Call (Listbydate d), Get (Listbydate d), Backoff 10, Get (Listbydate d),
                 Backoff 20, Get (Listbydate d)]
              @ map (\<lambda>kvs. Write All_tenders (JObj (dict_set kvs download_date_key (JStr d))))
                  kvss
              @ [Log (Day_done d (int (length kvss)) (total_tenders st + int (length kvss)))],
            downloaded_dates := insert d (downloaded_dates st),
            downloaded_count := downloaded_count st + 1,
            total_tenders := total_tenders st + int (length kvss)\<rparr>"
  have "fetch_day srv d st = (Returns (), ?st1)"
    using h by (simp add: busy_twice_day)
  then have it: "iteration srv save_interval d st = periodic_save save_interval ?st1"
    using h by (simp add: iteration_def)
  show "fst (iteration srv save_interval d st) = Returns Processed"
    using h by (simp add: it periodic_save_path)
  show "backoffs (trace (snd (iteration srv save_interval d st)))
          = backoffs (trace st) @ [10, 20]"
    by (simp add: it)
  show "writes All_tenders (trace (snd (iteration srv save_interval d st)))
          = writes All_tenders (trace st)
            @ map (\<lambda>kvs. JObj (dict_set kvs download_date_key (JStr d))) kvss"
    by (simp add: it)
  show "downloaded_dates (snd (iteration srv save_interval d st))
          = insert d (downloaded_dates st)"
    by (simp add: it)
  show "downloaded_count (snd (iteration srv save_interval d st)) = downloaded_count st + 1"
    by (simp add: it)
  show "total_tenders (snd (iteration srv save_interval d st))
          = total_tenders st + int (length kvss)"
    by (simp add: it)
qed

theorem backoff_increasing_witness:
  "request_with_retry busy_twice (Listbydate ''20260106'') 3 fresh =
     (Returns (JObj [(''records'', JArr [JObj [(''job_number'', JStr ''J1'')]])]),
      \<lparr>sent = 3,
       trace = [Call (Listbydate ''20260106''), Get (Listbydate ''20260106''), Backoff 10,
                Get (Listbydate ''20260106''), Backoff 20, Get (Listbydate ''20260106'')]\<rparr>)
   \<and> fetch_day busy_twice ''20260106'' blank =
     (Returns (),
      \<lparr>sent = 3,
       trace = [Call (Listbydate ''20260106''), Get (Listbydate ''20260106''), Backoff 10,
                Get (Listbydate ''20260106''), Backoff 20, Get (Listbydate ''20260106''),
                Write All_tenders
                  (JObj [(''job_number'', JStr ''J1''), (''_download_date'', JStr ''20260106'')]),
                Log (Day_done ''20260106'' 1 1)],
       downloaded_dates = {''20260106''}, downloaded_count = 1, total_tenders = 1\<rparr>)
   \<and> fst (iteration busy_twice 100 ''20260106'' blank) = Returns Processed
   \<and> backoffs (trace (snd (iteration busy_twice 100 ''20260106'' blank))) = [10, 20]
   \<and> writes All_tenders (trace (snd (iteration busy_twice 100 ''20260106'' blank)))
       = [JObj [(''job_number'', JStr ''J1''), (''_download_date'', JStr ''20260106'')]]
   \<and> downloaded_dates (snd (iteration busy_twice 100 ''20260106'' blank)) = {''20260106''}
   \<and> downloaded_count (snd (iteration busy_twice 100 ''20260106'' blank)) = 1
   \<and> total_tenders (snd (iteration busy_twice 100 ''20260106'' blank)) = 1"
proof -
  have h: "busy_twice (sent fresh) (Listbydate ''20260106'') = Status429"
    "busy_twice (sent fresh + 1) (Listbydate ''20260106'') = Status429"
    "busy_twice (sent fresh + 2) (Listbydate ''20260106'')
       = Ok (JObj [(''records'', JArr [JObj [(''job_number'', JStr ''J1'')]])])"
    "busy_twice (sent blank) (Listbydate ''20260106'') = Status429"
    "busy_twice (sent blank + 1) (Listbydate ''20260106'') = Status429"
    "busy_twice (sent blank + 2) (Listbydate ''20260106'')
       = Ok (JObj [(''records'', JArr (map JObj [[(''job_number'', JStr ''J1'')]]))])"
    "''20260106'' \<notin> downloaded_dates blank" "(100 :: int) \<noteq> 0"
    by (simp_all add: busy_twice_def fresh_def blank_def)
  note inst = backoff_increasing[where srv = busy_twice and req = "Listbydate ''20260106''"
      and max_retries = 3 and w = fresh
      and body = "JObj [(''records'', JArr [JObj [(''job_number'', JStr ''J1'')]])]"
      and st = blank and d = "''20260106''" and kvss = "[[(''job_number'', JStr ''J1'')]]"
      and save_interval = 100]
  have a: "request_with_retry busy_twice (Listbydate ''20260106'') 3 fresh =
     (Returns (JObj [(''records'', JArr [JObj [(''job_number'', JStr ''J1'')]])]),
      fresh\<lparr>sent := sent fresh + 3,
        trace := trace fresh @ [Call (Listbydate ''20260106''), Get (Listbydate ''20260106''),
           Backoff 10, Get (Listbydate ''20260106''), Backoff 20,
           Get (Listbydate ''20260106'')]\<rparr>)"
    using inst h(1-3) by blast
  have b: "fetch_day busy_twice ''20260106'' blank =
        (Returns (),
         blank\<lparr>sent := sent blank + 3,
            trace := trace blank
              @ [Call (Listbydate ''20260106''), Get (Listbydate ''20260106''), Backoff 10,
                 Get (Listbydate ''20260106''), Backoff 20, Get (Listbydate ''20260106'')]
              @ map (\<lambda>kvs. Write All_tenders
                    (JObj (dict_set kvs download_date_key (JStr ''20260106''))))
                  [[(''job_number'', JStr ''J1'')]]
              @ [Log (Day_done ''20260106'' (int (length [[(''job_number'', JStr ''J1'')]]))
                   (total_tenders blank + int (length [[(''job_number'', JStr ''J1'')]])))],
            downloaded_dates := insert ''20260106'' (downloaded_dates blank),
            downloaded_count := downloaded_count blank + 1,
            total_tenders := total_tenders blank
              + int (length [[(''job_number'', JStr ''J1'')]])\<rparr>)"
    using inst h(4-6) by blast
  have c: "fst (iteration busy_twice 100 ''20260106'' blank) = Returns Processed
      \<and> backoffs (trace (snd (iteration busy_twice 100 ''20260106'' blank)))
          = backoffs (trace blank) @ [10, 20]
      \<and> writes All_tenders (trace (snd (iteration busy_twice 100 ''20260106'' blank)))
          = writes All_tenders (trace blank)
            @ map (\<lambda>kvs. JObj (dict_set kvs download_date_key (JStr ''20260106'')))
                [[(''job_number'', JStr ''J1'')]]
      \<and> downloaded_dates (snd (iteration busy_twice 100 ''20260106'' blank))
          = insert ''20260106'' (downloaded_dates blank)
      \<and> downloaded_count (snd (iteration busy_twice 100 ''20260106'' blank))
          = downloaded_count blank + 1
      \<and> total_tenders (snd (iteration busy_twice 100 ''20260106'' blank))
          = total_tenders blank + int (length [[(''job_number'', JStr ''J1'')]])"
    using inst h(4-8) by blast
  show ?thesis
    apply (intro conjI)
    subgoal using a by (simp add: fresh_def)
    subgoal using b by (simp add: blank_def download_date_key_def)
    subgoal using c by simp
    subgoal using c by (simp add: blank_def)
    subgoal using c by (simp add: blank_def download_date_key_def)
    subgoal using c by (simp add: blank_def)
    subgoal using c by (simp add: blank_def)
    subgoal using c by (simp add: blank_def)
    done
qed

end
